theory Spec2Isabelle
  imports Main "HOL-Library.AList"
begin

section \<open>Values\<close>

text \<open>
  JSON values as they reach the handlers in \<open>req.body\<close> and leave them in \<open>res.json\<close>.
  An object is an association list in insertion order; its keys are distinct. Numbers are
  the integers (timestamps, status codes); fractions are not needed by any path below.
  Strings are sequences of ASCII characters.
\<close>

datatype jsval =
    JUndefined
  | JNull
  | JBool bool
  | JNum int
  | JStr string
  | JArr "jsval list"
  | JObj "(string \<times> jsval) list"

type_synonym jsobj = "(string \<times> jsval) list"

text \<open>JavaScript truthiness (\<open>!x\<close>, \<open>x || y\<close>, \<open>if (x)\<close>).\<close>

fun truthy :: "jsval \<Rightarrow> bool" where
  "truthy JUndefined = False"
| "truthy JNull = False"
| "truthy (JBool b) = b"
| "truthy (JNum n) = (n \<noteq> 0)"
| "truthy (JStr s) = (s \<noteq> [])"
| "truthy (JArr xs) = True"
| "truthy (JObj kvs) = True"

text \<open>\<open>a || b\<close>\<close>

definition js_or :: "jsval \<Rightarrow> jsval \<Rightarrow> jsval" where
  "js_or a b = (if truthy a then a else b)"

text \<open>Property read \<open>obj[k]\<close> and property write \<open>obj[k] = v\<close> on an object.\<close>

definition get_prop :: "jsobj \<Rightarrow> string \<Rightarrow> jsval" where
  "get_prop obj k = (case map_of obj k of None \<Rightarrow> JUndefined | Some v \<Rightarrow> v)"

definition set_prop :: "string \<Rightarrow> jsval \<Rightarrow> jsobj \<Rightarrow> jsobj" where
  "set_prop k v obj = AList.update k v obj"

text \<open>An error thrown or a promise rejected, with its \<open>err.message\<close>.\<close>

datatype js_error = TypeError string | Rejected string

fun message :: "js_error \<Rightarrow> string" where
  "message (TypeError m) = m"
| "message (Rejected m) = m"

subsection \<open>Strings\<close>

definition lower_char :: "char \<Rightarrow> char" where
  "lower_char c =
     (case map_of (zip ''ABCDEFGHIJKLMNOPQRSTUVWXYZ'' ''abcdefghijklmnopqrstuvwxyz'') c of
        Some l \<Rightarrow> l
      | None \<Rightarrow> c)"

definition toLowerCase :: "string \<Rightarrow> string" where
  "toLowerCase s = map lower_char s"

definition white_space :: "char \<Rightarrow> bool" where
  "white_space c = (c \<in> set [CHR 0x09, CHR 0x0A, CHR 0x0B, CHR 0x0C, CHR 0x0D, CHR '' ''])"

definition trim :: "string \<Rightarrow> string" where
  "trim s = rev (dropWhile white_space (rev (dropWhile white_space s)))"

text \<open>\<open>str.split(' ')[0]\<close>: the part before the first space (the whole string if none).\<close>

definition split_first :: "string \<Rightarrow> string" where
  "split_first s = takeWhile (\<lambda>c. c \<noteq> CHR '' '') s"

section \<open>The Airtable base\<close>

text \<open>
  The cell values the Airtable API returns for the field kinds this program reads: text,
  number, checkbox, and arrays of strings (the record ids of a linked-record field). An
  empty cell is absent from \<open>record.fields\<close>.
\<close>

datatype cell = CText string | CNumber int | CCheckbox bool | CList "string list"

fun js_of_cell :: "cell \<Rightarrow> jsval" where
  "js_of_cell (CText s) = JStr s"
| "js_of_cell (CNumber n) = JNum n"
| "js_of_cell (CCheckbox b) = JBool b"
| "js_of_cell (CList xs) = JArr (map JStr xs)"

record airtable_record =
  rec_id :: string
  rec_fields :: "(string \<times> cell) list"

text \<open>\<open>record.get(name)\<close>\<close>

definition rec_get :: "airtable_record \<Rightarrow> string \<Rightarrow> jsval" where
  "rec_get r name = (case map_of (rec_fields r) name of None \<Rightarrow> JUndefined | Some c \<Rightarrow> js_of_cell c)"

text \<open>
  The base is external: its answers are parameters of the model. \<open>'s\<close> is the state of the
  base. \<open>select_students\<close> is \<open>base('Students').select({filterByFormula, maxRecords: 1}).firstPage()\<close>
  as a function of the formula; \<open>find_mentor\<close> and \<open>find_meeting\<close> are \<open>.find(id)\<close> on the
  two linked tables; \<open>update_student\<close> is \<open>base('Students').update(id, fields)\<close>, which
  answers with the updated record. Each call may reject.
\<close>

record 's base =
  select_students :: "'s \<Rightarrow> string \<Rightarrow> js_error + airtable_record list"
  find_mentor :: "'s \<Rightarrow> string \<Rightarrow> js_error + airtable_record"
  find_meeting :: "'s \<Rightarrow> string \<Rightarrow> js_error + airtable_record"
  update_student :: "'s \<Rightarrow> string \<Rightarrow> jsobj \<Rightarrow> js_error + ('s \<times> airtable_record)"

text \<open>The filter formula \<open>`{Student's Email} = '${email}'`\<close>.\<close>

definition email_formula :: "string \<Rightarrow> string" where
  "email_formula email = ''{Student's Email} = '' @ [CHR 0x27] @ email @ [CHR 0x27]"

section \<open>Hydration\<close>

text \<open>\<open>{...obj, ...record.fields}\<close>: the fields are copied over \<open>obj\<close> in their order.\<close>

definition spread :: "jsobj \<Rightarrow> (string \<times> cell) list \<Rightarrow> jsobj" where
  "spread obj fs = fold (\<lambda>(k, c). set_prop k (js_of_cell c)) fs obj"

text \<open>
  \<open>ids && ids.length > 0\<close>, then \<open>ids[0]\<close>, on the value of a link field. A non-empty text
  has a length and a first character; a number or a checkbox has no \<open>length\<close>, and
  \<open>undefined > 0\<close> is false.
\<close>

fun first_link :: "cell option \<Rightarrow> string option" where
  "first_link None = None"
| "first_link (Some (CList [])) = None"
| "first_link (Some (CList (x # xs))) = Some x"
| "first_link (Some (CText [])) = None"
| "first_link (Some (CText (c # cs))) = Some [c]"
| "first_link (Some (CNumber n)) = None"
| "first_link (Some (CCheckbox b)) = None"

definition getMentorById :: "'s base \<Rightarrow> 's \<Rightarrow> string \<Rightarrow> jsobj option" where
  "getMentorById b s mentorId =
     (case find_mentor b s mentorId of
        Inl err \<Rightarrow> None
      | Inr record \<Rightarrow>
          Some (spread [(''id'', JStr (rec_id record)), (''name'', rec_get record ''Name'')]
                  (rec_fields record)))"

definition getMeetingById :: "'s base \<Rightarrow> 's \<Rightarrow> string \<Rightarrow> jsobj option" where
  "getMeetingById b s meetingId =
     (case find_meeting b s meetingId of
        Inl err \<Rightarrow> None
      | Inr record \<Rightarrow>
          (let meeting = spread [(''id'', JStr (rec_id record))] (rec_fields record)
           in case first_link (map_of (rec_fields record) ''Mentors Attended'') of
                None \<Rightarrow> Some meeting
              | Some mentorId \<Rightarrow>
                  (case getMentorById b s mentorId of
                     None \<Rightarrow> Some meeting
                   | Some mentor \<Rightarrow> Some (set_prop ''mentorAttended'' (JObj mentor) meeting))))"

text \<open>\<open>meetings.filter(m => m !== null)\<close>\<close>

primrec non_null :: "'a option list \<Rightarrow> 'a list" where
  "non_null [] = []"
| "non_null (m # ms) = (case m of None \<Rightarrow> non_null ms | Some x \<Rightarrow> x # non_null ms)"

text \<open>
  One of the two single-mentor links of \<open>hydrateStudent\<close>: the field \<open>link\<close> is read, its
  first id resolved, and the mentor stored under \<open>key\<close> when the lookup gave one.
\<close>

definition hydrate_mentor :: "'s base \<Rightarrow> 's \<Rightarrow> airtable_record \<Rightarrow> string \<Rightarrow> string \<Rightarrow> jsobj \<Rightarrow> jsobj" where
  "hydrate_mentor b s record link key student =
     (case first_link (map_of (rec_fields record) link) of
        None \<Rightarrow> student
      | Some mentorId \<Rightarrow>
          (case getMentorById b s mentorId of
             None \<Rightarrow> student
           | Some mentor \<Rightarrow> set_prop key (JObj mentor) student))"

text \<open>
  \<open>hydrateStudent\<close>. \<open>Promise.all\<close> answers with the results in the order of its argument.
  The one exception the function can raise is \<open>meetingIds.map\<close> on a non-empty text.
\<close>

definition hydrateStudent :: "'s base \<Rightarrow> 's \<Rightarrow> airtable_record \<Rightarrow> js_error + jsobj" where
  "hydrateStudent b s record =
     (let student = spread [(''id'', JStr (rec_id record))] (rec_fields record);
          student = hydrate_mentor b s record ''Recruitment Manager'' ''recruitmentManager'' student;
          student = hydrate_mentor b s record ''Lead Mentor'' ''leadMentor'' student
      in case map_of (rec_fields record) ''Student-Mentor Meetings'' of
           Some (CList (i # rest)) \<Rightarrow>
             (let meetings = map (getMeetingById b s) (i # rest)
              in Inr (set_prop ''meetings'' (JArr (map JObj (non_null meetings))) student))
         | Some (CText (c # cs)) \<Rightarrow> Inl (TypeError ''meetingIds.map is not a function'')
         | _ \<Rightarrow> Inr (set_prop ''meetings'' (JArr []) student))"

text \<open>\<open>getStudentByEmail\<close>: the email goes into the formula as it is given.\<close>

definition getStudentByEmail :: "'s base \<Rightarrow> 's \<Rightarrow> string \<Rightarrow> js_error + jsobj option" where
  "getStudentByEmail b s email =
     (case select_students b s (email_formula email) of
        Inl err \<Rightarrow> Inl err
      | Inr [] \<Rightarrow> Inr None
      | Inr (r # rs) \<Rightarrow> map_sum id Some (hydrateStudent b s r))"

section \<open>The server\<close>

text \<open>
  \<open>process.env\<close> and the clients made from it at start-up. \<open>PORT\<close> is
  \<open>process.env.PORT || 3000\<close> as it prints; \<open>resend\<close> is the mail client, present when
  \<open>RESEND_API_KEY\<close> is set, and answers each message with success or a rejection.
\<close>

record mail =
  mail_from :: string
  mail_to :: string
  mail_subject :: string
  mail_first_name :: jsval
  mail_link :: string

record env =
  DEV_MODE :: "string option"
  DEV_TEST_EMAIL :: "string option"
  APP_URL :: "string option"
  EMAIL_FROM :: "string option"
  PORT :: string
  resend :: "(mail \<Rightarrow> js_error + unit) option"

text \<open>\<open>process.env.X || dflt\<close>: an unset or empty variable gives the default.\<close>

definition env_or :: "string option \<Rightarrow> string \<Rightarrow> string" where
  "env_or v dflt = (case v of None \<Rightarrow> dflt | Some x \<Rightarrow> if x = [] then dflt else x)"

text \<open>The in-memory token store \<open>magicLinkTokens\<close>: a \<open>Map\<close> from token to its data.\<close>

record token_data =
  token_email :: string
  token_expiresAt :: int

type_synonym tokens = "string \<rightharpoonup> token_data"

text \<open>
  \<open>magicLinkTokens.get(token)\<close> and \<open>.delete(token)\<close> with the value of the request: the
  keys of the map are strings, so no other value finds or deletes an entry.
\<close>

fun tokens_get :: "tokens \<Rightarrow> jsval \<Rightarrow> token_data option" where
  "tokens_get toks (JStr t) = toks t"
| "tokens_get toks v = None"

fun tokens_delete :: "tokens \<Rightarrow> jsval \<Rightarrow> tokens" where
  "tokens_delete toks (JStr t) = toks(t := None)"
| "tokens_delete toks v = toks"

definition SESSION_DURATION_MS :: int where
  "SESSION_DURATION_MS = 6 * 30 * 24 * 60 * 60 * 1000"

record response =
  status :: int
  json :: jsval

text \<open>\<open>res.status(code).json(obj)\<close>; \<open>res.json(obj)\<close> is the same with 200.\<close>

definition reply :: "int \<Rightarrow> jsobj \<Rightarrow> response" where
  "reply code obj = \<lparr>status = code, json = JObj obj\<rparr>"

text \<open>The \<open>catch\<close> of every handler.\<close>

definition failed :: "string \<Rightarrow> js_error \<Rightarrow> response" where
  "failed what err = reply 500 [(''error'', JStr what), (''details'', JStr (message err))]"

text \<open>
  \<open>email.toLowerCase().trim()\<close> on a truthy value of the request: a value that is not a
  string has no \<open>toLowerCase\<close>.
\<close>

fun normalize :: "jsval \<Rightarrow> js_error + string" where
  "normalize (JStr s) = Inr (trim (toLowerCase s))"
| "normalize v = Inl (TypeError ''email.toLowerCase is not a function'')"

text \<open>
  \<open>student.get('Preferred First Name') || student.get('Name')?.split(' ')[0] || 'there'\<close>
\<close>

definition first_name :: "airtable_record \<Rightarrow> js_error + jsval" where
  "first_name student =
     (let preferred = rec_get student ''Preferred First Name''
      in if truthy preferred then Inr preferred
         else case rec_get student ''Name'' of
                JUndefined \<Rightarrow> Inr (JStr ''there'')
              | JNull \<Rightarrow> Inr (JStr ''there'')
              | JStr n \<Rightarrow> Inr (js_or (JStr (split_first n)) (JStr ''there''))
              | _ \<Rightarrow> Inl (TypeError ''student.get(...)?.split is not a function''))"

text \<open>The identity projection both login paths answer with.\<close>

definition student_summary :: "airtable_record \<Rightarrow> jsval" where
  "student_summary student =
     JObj [(''id'', JStr (rec_id student)),
           (''email'', rec_get student ''Student's Email''),
           (''name'', js_or (rec_get student ''Name'') (rec_get student ''Student ID'')),
           (''firstName'', rec_get student ''Preferred First Name'')]"

definition session_reply :: "string \<Rightarrow> int \<Rightarrow> airtable_record \<Rightarrow> response" where
  "session_reply sessionToken sessionExpiresAt student =
     reply 200 [(''success'', JBool True),
                (''session'', JObj [(''token'', JStr sessionToken), (''expiresAt'', JNum sessionExpiresAt)]),
                (''student'', student_summary student)]"

subsection \<open>POST /api/auth/magic-link\<close>

text \<open>
  \<open>now\<close> is the reading of \<open>Date.now()\<close> and \<open>uuid\<close> the result of \<open>uuidv4()\<close>. The request
  body is the object \<open>express.json()\<close> parsed.
\<close>

definition post_auth_magic_link ::
  "'s base \<Rightarrow> env \<Rightarrow> 's \<Rightarrow> tokens \<Rightarrow> jsobj \<Rightarrow> int \<Rightarrow> string \<Rightarrow> tokens \<times> response" where
  "post_auth_magic_link b e s toks body now uuid =
     (let email = get_prop body ''email''
      in if \<not> truthy email then (toks, reply 400 [(''error'', JStr ''Email is required'')])
         else case normalize email of
           Inl err \<Rightarrow> (toks, failed ''Failed to send magic link'' err)
         | Inr normalizedEmail \<Rightarrow>
            (case select_students b s (email_formula normalizedEmail) of
               Inl err \<Rightarrow> (toks, failed ''Failed to send magic link'' err)
             | Inr [] \<Rightarrow> (toks, reply 404 [(''error'', JStr ''No student found with this email'')])
             | Inr (student # others) \<Rightarrow>
                (case first_name student of
                   Inl err \<Rightarrow> (toks, failed ''Failed to send magic link'' err)
                 | Inr firstName \<Rightarrow>
                    (let token = uuid;
                         expiresAt = now + 15 * 60 * 1000;
                         toks' = toks(token \<mapsto> \<lparr>token_email = normalizedEmail, token_expiresAt = expiresAt\<rparr>);
                         baseUrl = env_or (APP_URL e) (''http://localhost:'' @ PORT e);
                         magicLink = baseUrl @ ''?token='' @ token
                     in case resend e of
                          Some send \<Rightarrow>
                            (case send \<lparr>mail_from = env_or (EMAIL_FROM e) ''WSG Portal <noreply@resend.dev>'',
                                        mail_to = normalizedEmail,
                                        mail_subject = ''Sign in to WSG Student Portal'',
                                        mail_first_name = firstName,
                                        mail_link = magicLink\<rparr> of
                               Inl err \<Rightarrow> (toks', failed ''Failed to send magic link'' err)
                             | Inr u \<Rightarrow>
                                 (toks', reply 200 [(''success'', JBool True),
                                                    (''message'', JStr ''Magic link sent to your email'')]))
                        | None \<Rightarrow>
                            (toks', reply 200 [(''success'', JBool True),
                                               (''message'', JStr ''Magic link generated''),
                                               (''devMode'', JBool True),
                                               (''magicLink'', JStr magicLink)])))))"

subsection \<open>POST /api/auth/dev-login\<close>

definition post_auth_dev_login :: "'s base \<Rightarrow> env \<Rightarrow> 's \<Rightarrow> jsobj \<Rightarrow> int \<Rightarrow> string \<Rightarrow> response" where
  "post_auth_dev_login b e s body now uuid =
     (if DEV_MODE e \<noteq> Some ''true''
      then reply 403 [(''error'', JStr ''Dev login not available in production'')]
      else
        (let email = get_prop body ''email'';
             testEmail = js_or email (JStr (env_or (DEV_TEST_EMAIL e) ''test@example.com''))
         in case normalize testEmail of
              Inl err \<Rightarrow> failed ''Dev login failed'' err
            | Inr normalizedEmail \<Rightarrow>
               (case select_students b s (email_formula normalizedEmail) of
                  Inl err \<Rightarrow> failed ''Dev login failed'' err
                | Inr [] \<Rightarrow>
                    reply 404 [(''error'', JStr (''No student found with email: '' @ normalizedEmail))]
                | Inr (student # others) \<Rightarrow>
                    (let sessionToken = uuid;
                         sessionExpiresAt = now + SESSION_DURATION_MS
                     in session_reply sessionToken sessionExpiresAt student))))"

subsection \<open>POST /api/auth/verify\<close>

text \<open>
  \<open>Date.now()\<close> is read twice: \<open>now\<close> at the expiry check, \<open>now'\<close> when the session is
  minted, after the base has answered.
\<close>

definition post_auth_verify ::
  "'s base \<Rightarrow> 's \<Rightarrow> tokens \<Rightarrow> jsobj \<Rightarrow> int \<Rightarrow> int \<Rightarrow> string \<Rightarrow> tokens \<times> response" where
  "post_auth_verify b s toks body now now' uuid =
     (let token = get_prop body ''token''
      in if \<not> truthy token then (toks, reply 400 [(''error'', JStr ''Token is required'')])
         else case tokens_get toks token of
           None \<Rightarrow> (toks, reply 401 [(''error'', JStr ''Invalid or expired link'')])
         | Some tokenData \<Rightarrow>
             if now > token_expiresAt tokenData
             then (tokens_delete toks token,
                   reply 401 [(''error'', JStr ''Link has expired. Please request a new one.'')])
             else
               (let toks' = tokens_delete toks token
                in case select_students b s (email_formula (token_email tokenData)) of
                     Inl err \<Rightarrow> (toks', failed ''Verification failed'' err)
                   | Inr [] \<Rightarrow> (toks', reply 404 [(''error'', JStr ''Student not found'')])
                   | Inr (student # others) \<Rightarrow>
                       (let sessionToken = uuid;
                            sessionExpiresAt = now' + SESSION_DURATION_MS
                        in (toks', session_reply sessionToken sessionExpiresAt student))))"

subsection \<open>GET /student/:email\<close>

definition get_student :: "'s base \<Rightarrow> 's \<Rightarrow> string \<Rightarrow> response" where
  "get_student b s email =
     (case getStudentByEmail b s email of
        Inl err \<Rightarrow> failed ''Failed to fetch student'' err
      | Inr None \<Rightarrow> reply 404 [(''error'', JStr ''Student not found'')]
      | Inr (Some student) \<Rightarrow> \<lparr>status = 200, json = JObj student\<rparr>)"

subsection \<open>POST /api/student/update\<close>

definition allowedFields :: "string list" where
  "allowedFields =
     [''Current University / Institution'',
      ''Degree / Major'',
      ''Graduation Year'',
      ''GPA'',
      ''Current Clubs / Extracurriculars'',
      ''CV/Resume'',
      ''Short-Term Goals (1-3 Years)'',
      ''What countries do you own a passport?'']"

text \<open>
  \<open>typeof updates !== 'object'\<close>, and \<open>field in updates\<close>, \<open>updates[field]\<close> for the names
  of \<open>allowedFields\<close>: an array has its indices and \<open>length\<close>, none of them an allowed name.
\<close>

fun typeof_object :: "jsval \<Rightarrow> bool" where
  "typeof_object (JObj kvs) = True"
| "typeof_object (JArr xs) = True"
| "typeof_object JNull = True"
| "typeof_object v = False"

fun field_in :: "string \<Rightarrow> jsval \<Rightarrow> bool" where
  "field_in field (JObj kvs) = (map_of kvs field \<noteq> None)"
| "field_in field v = False"

fun field_of :: "jsval \<Rightarrow> string \<Rightarrow> jsval" where
  "field_of (JObj kvs) field = get_prop kvs field"
| "field_of v field = JUndefined"

text \<open>The loop that builds \<open>fieldsToUpdate\<close>, one turn per allowed field.\<close>

definition add_field :: "jsval \<Rightarrow> string \<Rightarrow> jsobj \<Rightarrow> jsobj" where
  "add_field updates field fieldsToUpdate =
     (if field_in field updates
      then (let v = field_of updates field
            in if v \<noteq> JNull \<and> v \<noteq> JUndefined then set_prop field v fieldsToUpdate
               else fieldsToUpdate)
      else fieldsToUpdate)"

definition fieldsToUpdate :: "jsval \<Rightarrow> jsobj" where
  "fieldsToUpdate updates = fold (add_field updates) allowedFields []"

definition post_student_update :: "'s base \<Rightarrow> 's \<Rightarrow> jsobj \<Rightarrow> 's \<times> response" where
  "post_student_update b s body =
     (let email = get_prop body ''email'';
          updates = get_prop body ''updates''
      in if \<not> truthy email then (s, reply 400 [(''error'', JStr ''Email is required'')])
         else if \<not> truthy updates \<or> \<not> typeof_object updates
         then (s, reply 400 [(''error'', JStr ''Updates object is required'')])
         else case normalize email of
           Inl err \<Rightarrow> (s, failed ''Failed to update student profile'' err)
         | Inr normalizedEmail \<Rightarrow>
            (case select_students b s (email_formula normalizedEmail) of
               Inl err \<Rightarrow> (s, failed ''Failed to update student profile'' err)
             | Inr [] \<Rightarrow> (s, reply 404 [(''error'', JStr ''Student not found'')])
             | Inr (studentRecord # others) \<Rightarrow>
                (case update_student b s (rec_id studentRecord) (fieldsToUpdate updates) of
                   Inl err \<Rightarrow> (s, failed ''Failed to update student profile'' err)
                 | Inr (s', updatedRecord) \<Rightarrow>
                    (case hydrateStudent b s' updatedRecord of
                       Inl err \<Rightarrow> (s', failed ''Failed to update student profile'' err)
                     | Inr updatedStudent \<Rightarrow>
                         (s', reply 200 [(''success'', JBool True),
                                         (''student'', JObj updatedStudent)])))))"

subsection \<open>Runs of the server\<close>

text \<open>
  What happens between two requests of interest: other requests are handled, each with its
  own clock readings and fresh uuid, and the base is edited by others. Only the magic-link
  and verify handlers touch \<open>magicLinkTokens\<close>; only the update handler writes to the base.
\<close>

datatype 's event =
    MagicLink jsobj int string
  | DevLogin jsobj int string
  | Verify jsobj int int string
  | GetStudent string
  | UpdateStudent jsobj
  | BaseEdited 's

fun handle :: "'s base \<Rightarrow> env \<Rightarrow> 's event \<Rightarrow> 's \<times> tokens \<Rightarrow> 's \<times> tokens" where
  "handle b e (MagicLink body now uuid) (s, toks) = (s, fst (post_auth_magic_link b e s toks body now uuid))"
| "handle b e (DevLogin body now uuid) (s, toks) = (s, toks)"
| "handle b e (Verify body now now' uuid) (s, toks) = (s, fst (post_auth_verify b s toks body now now' uuid))"
| "handle b e (GetStudent email) (s, toks) = (s, toks)"
| "handle b e (UpdateStudent body) (s, toks) = (fst (post_student_update b s body), toks)"
| "handle b e (BaseEdited s') (s, toks) = (s', toks)"

definition run :: "'s base \<Rightarrow> env \<Rightarrow> 's event list \<Rightarrow> 's \<times> tokens \<Rightarrow> 's \<times> tokens" where
  "run b e evs st = fold (handle b e) evs st"

text \<open>The event is a magic-link request for which \<open>uuidv4()\<close> gave the token \<open>t\<close>.\<close>

fun issues :: "'s event \<Rightarrow> string \<Rightarrow> bool" where
  "issues (MagicLink body now uuid) t = (uuid = t)"
| "issues ev t = False"

text \<open>The \<open>session\<close> object of a response, and the meetings of a hydrated student.\<close>

definition session_of :: "response \<Rightarrow> jsval" where
  "session_of r = (case json r of JObj obj \<Rightarrow> get_prop obj ''session'' | _ \<Rightarrow> JUndefined)"

definition meeting_ids :: "airtable_record \<Rightarrow> string list" where
  "meeting_ids r = (case map_of (rec_fields r) ''Student-Mentor Meetings'' of Some (CList ids) \<Rightarrow> ids | _ \<Rightarrow> [])"

section \<open>A base held in memory\<close>

text \<open>
  A small base to run the handlers on: three tables; the select answers with the first
  student whose email cell makes the formula, compared as text; the update patches the
  cells it is given and clears a cell given the empty string.
\<close>

record memory =
  tbl_students :: "airtable_record list"
  tbl_mentors :: "airtable_record list"
  tbl_meetings :: "airtable_record list"

definition memory_find :: "airtable_record list \<Rightarrow> string \<Rightarrow> js_error + airtable_record" where
  "memory_find tbl i =
     (case List.find (\<lambda>r. rec_id r = i) tbl of
        None \<Rightarrow> Inl (Rejected ''Could not find what you are looking for'')
      | Some r \<Rightarrow> Inr r)"

definition email_matches :: "string \<Rightarrow> airtable_record \<Rightarrow> bool" where
  "email_matches formula r =
     (case map_of (rec_fields r) ''Student's Email'' of
        Some (CText a) \<Rightarrow> email_formula a = formula
      | _ \<Rightarrow> False)"

definition memory_select :: "memory \<Rightarrow> string \<Rightarrow> js_error + airtable_record list" where
  "memory_select m formula = Inr (take 1 (filter (email_matches formula) (tbl_students m)))"

fun patch_cell :: "string \<times> jsval \<Rightarrow> (string \<times> cell) list option \<Rightarrow> (string \<times> cell) list option" where
  "patch_cell (k, v) None = None"
| "patch_cell (k, JStr t) (Some fs) = Some (if t = [] then AList.delete k fs else AList.update k (CText t) fs)"
| "patch_cell (k, JNum n) (Some fs) = Some (AList.update k (CNumber n) fs)"
| "patch_cell (k, JBool c) (Some fs) = Some (AList.update k (CCheckbox c) fs)"
| "patch_cell (k, v) (Some fs) = None"

definition memory_update :: "memory \<Rightarrow> string \<Rightarrow> jsobj \<Rightarrow> js_error + (memory \<times> airtable_record)" where
  "memory_update m i patch =
     (case List.find (\<lambda>r. rec_id r = i) (tbl_students m) of
        None \<Rightarrow> Inl (Rejected ''Could not find what you are looking for'')
      | Some r \<Rightarrow>
          (case fold patch_cell patch (Some (rec_fields r)) of
             None \<Rightarrow> Inl (Rejected ''Field cannot accept the provided value'')
           | Some fs \<Rightarrow>
               (let r' = r\<lparr>rec_fields := fs\<rparr>
                in Inr (m\<lparr>tbl_students := map (\<lambda>x. if rec_id x = i then r' else x) (tbl_students m)\<rparr>, r'))))"

definition memory_base :: "memory base" where
  "memory_base =
     \<lparr>select_students = memory_select,
      find_mentor = (\<lambda>m. memory_find (tbl_mentors m)),
      find_meeting = (\<lambda>m. memory_find (tbl_meetings m)),
      update_student = memory_update\<rparr>"

text \<open>
  One student, Jane, with a recruitment manager, a lead mentor whose record is gone, and
  three meetings of which the middle one is gone.
\<close>

definition jane :: airtable_record where
  "jane = \<lparr>rec_id = ''recJane'',
           rec_fields = [(''Student's Email'', CText ''jane@example.com''),
                         (''Name'', CText ''Jane Doe''),
                         (''GPA'', CText ''3.7''),
                         (''Recruitment Manager'', CList [''recAda'']),
                         (''Lead Mentor'', CList [''recGone'']),
                         (''Student-Mentor Meetings'', CList [''recMeet1'', ''recGone'', ''recMeet2''])]\<rparr>"

definition campus :: memory where
  "campus =
     \<lparr>tbl_students = [jane],
      tbl_mentors = [\<lparr>rec_id = ''recAda'', rec_fields = [(''Name'', CText ''Ada'')]\<rparr>],
      tbl_meetings = [\<lparr>rec_id = ''recMeet1'', rec_fields = [(''Mentors Attended'', CList [''recAda''])]\<rparr>,
                      \<lparr>rec_id = ''recMeet2'', rec_fields = [(''Notes'', CText ''resume review'')]\<rparr>]\<rparr>"

text \<open>
  An environment with nothing set (no dev flag, no mail client, the default port), and the
  same with \<open>DEV_MODE=true\<close>.
\<close>

definition bare_env :: env where
  "bare_env = \<lparr>DEV_MODE = None, DEV_TEST_EMAIL = None, APP_URL = None, EMAIL_FROM = None,
               PORT = ''3000'', resend = None\<rparr>"

definition dev_env :: env where
  "dev_env = bare_env\<lparr>DEV_MODE := Some ''true''\<rparr>"

text \<open>A token store holding one link for Jane, good until 900000.\<close>

definition jane_token :: tokens where
  "jane_token = [''tok-1'' \<mapsto> \<lparr>token_email = ''jane@example.com'', token_expiresAt = 900000\<rparr>]"

text \<open>The same base after Jane's record has been deleted.\<close>

definition campus_without_jane :: memory where
  "campus_without_jane = campus\<lparr>tbl_students := []\<rparr>"

text \<open>
  A student record whose recruitment manager and meetings are all gone from the base, and
  who has no lead mentor.
\<close>

definition sam :: airtable_record where
  "sam = \<lparr>rec_id = ''recSam'',
          rec_fields = [(''Student's Email'', CText ''sam@example.com''),
                        (''Name'', CText ''Sam Roe''),
                        (''Recruitment Manager'', CList [''recGone'']),
                        (''Student-Mentor Meetings'', CList [''recGone'', ''recLost''])]\<rparr>"

text \<open>The test of the update loop: the field is in the updates and its value is neither
  \<open>null\<close> nor \<open>undefined\<close>.\<close>

abbreviation kept :: "jsval \<Rightarrow> string \<Rightarrow> bool" where
  "kept u f \<equiv> field_in f u \<and> field_of u f \<noteq> JNull \<and> field_of u f \<noteq> JUndefined"

text \<open>Two update objects: one mixing an allowed field with others, one with a null.\<close>

definition mixed_updates :: jsobj where
  "mixed_updates = [(''GPA'', JStr ''3.9''), (''Name'', JStr ''Mallory''),
                    (''Lead Mentor'', JArr [JStr ''recAda''])]"

definition null_updates :: jsobj where
  "null_updates = [(''GPA'', JNull), (''Degree / Major'', JStr [])]"

text \<open>Jane's record and the base after her GPA has been set to 3.9.\<close>

definition jane_updated :: airtable_record where
  "jane_updated = jane\<lparr>rec_fields := AList.update ''GPA'' (CText ''3.9'') (rec_fields jane)\<rparr>"

definition campus_updated :: memory where
  "campus_updated = campus\<lparr>tbl_students := [jane_updated]\<rparr>"

section \<open>Properties of the handlers\<close>

subsection \<open>Status codes\<close>

lemma status_reply: "status (reply c obj) = c"
  by (simp add: reply_def)

lemma status_failed: "status (failed w err) = 500"
  by (simp add: failed_def reply_def)

lemma status_session_reply: "status (session_reply t x st) = 200"
  by (simp add: session_reply_def reply_def)

subsection \<open>The token store\<close>

lemma tokens_get_Some: "tokens_get toks v = Some td \<Longrightarrow> \<exists>t. v = JStr t \<and> toks t = Some td"
  by (cases v) simp_all

lemma tokens_delete_absent: "toks t = None \<Longrightarrow> tokens_delete toks v t = None"
  by (cases v) simp_all

subsection \<open>The four ways through the verify handler\<close>

lemma verify_falsy:
  "\<not> truthy (get_prop body ''token'') \<Longrightarrow>
   post_auth_verify b s toks body now now' uuid = (toks, reply 400 [(''error'', JStr ''Token is required'')])"
  by (simp add: post_auth_verify_def)

lemma verify_unknown:
  "truthy (get_prop body ''token'') \<Longrightarrow> tokens_get toks (get_prop body ''token'') = None \<Longrightarrow>
   post_auth_verify b s toks body now now' uuid =
     (toks, reply 401 [(''error'', JStr ''Invalid or expired link'')])"
  by (simp add: post_auth_verify_def)

lemma verify_expired:
  "truthy (get_prop body ''token'') \<Longrightarrow> tokens_get toks (get_prop body ''token'') = Some td \<Longrightarrow>
   token_expiresAt td < now \<Longrightarrow>
   post_auth_verify b s toks body now now' uuid =
     (tokens_delete toks (get_prop body ''token''),
      reply 401 [(''error'', JStr ''Link has expired. Please request a new one.'')])"
  by (simp add: post_auth_verify_def)

lemma verify_live:
  "truthy (get_prop body ''token'') \<Longrightarrow> tokens_get toks (get_prop body ''token'') = Some td \<Longrightarrow>
   now \<le> token_expiresAt td \<Longrightarrow>
   post_auth_verify b s toks body now now' uuid =
     (tokens_delete toks (get_prop body ''token''),
      case select_students b s (email_formula (token_email td)) of
        Inl err \<Rightarrow> failed ''Verification failed'' err
      | Inr [] \<Rightarrow> reply 404 [(''error'', JStr ''Student not found'')]
      | Inr (student # others) \<Rightarrow> session_reply uuid (now' + SESSION_DURATION_MS) student)"
  by (simp add: post_auth_verify_def Let_def split: sum.splits list.splits)

subsection \<open>The dev-login gate\<close>

text \<open>
  C6. When \<open>DEV_MODE\<close> is not the string \<open>true\<close> (unset included), the dev-login handler
  answers 403 with the fixed error body, whatever the payload, the base, the clock and the
  uuid are: the answer carries no session and depends on no student lookup.
\<close>

theorem dev_login_forbidden:
  "DEV_MODE e \<noteq> Some ''true'' \<Longrightarrow>
   post_auth_dev_login b e s body now uuid =
     reply 403 [(''error'', JStr ''Dev login not available in production'')]"
  by (simp add: post_auth_dev_login_def)

theorem dev_login_forbidden_witness:
  "DEV_MODE bare_env \<noteq> Some ''true'' \<and>
   post_auth_dev_login memory_base bare_env campus [(''email'', JStr ''jane@example.com'')]
       1700000000000 ''u1''
     = reply 403 [(''error'', JStr ''Dev login not available in production'')]"
  using dev_login_forbidden [of bare_env memory_base campus
      "[(''email'', JStr ''jane@example.com'')]" 1700000000000 "''u1''"]
  by (simp add: bare_env_def)

subsection \<open>Concrete runs used below\<close>

lemma select_jane:
  "select_students memory_base campus (email_formula ''jane@example.com'') = Inr [jane]"
  by (simp add: memory_base_def memory_select_def campus_def jane_def email_matches_def email_formula_def)

lemma normalize_jane: "trim (toLowerCase ''Jane@Example.com '') = ''jane@example.com''"
  by (simp add: toLowerCase_def lower_char_def trim_def white_space_def)

lemma first_verify:
  "post_auth_verify memory_base campus jane_token [(''token'', JStr ''tok-1'')] 1000 1500 ''sess-1''
     = (jane_token(''tok-1'' := None), session_reply ''sess-1'' (1500 + SESSION_DURATION_MS) jane)"
  by (simp add: post_auth_verify_def get_prop_def jane_token_def select_jane)

lemma dev_login_jane:
  "post_auth_dev_login memory_base dev_env campus [(''email'', JStr ''Jane@Example.com '')] 1000 ''sess-1''
     = session_reply ''sess-1'' (1000 + SESSION_DURATION_MS) jane"
  by (simp add: post_auth_dev_login_def dev_env_def bare_env_def get_prop_def js_or_def
      normalize_jane select_jane)

subsection \<open>One-time redemption\<close>

lemma magic_link_keeps_absent:
  "uuid \<noteq> t \<Longrightarrow> toks t = None \<Longrightarrow> fst (post_auth_magic_link b e s toks body now uuid) t = None"
  by (simp add: post_auth_magic_link_def Let_def split: sum.splits list.splits option.splits)

lemma verify_keeps_absent:
  "toks t = None \<Longrightarrow> fst (post_auth_verify b s toks body now now' uuid) t = None"
  by (simp add: post_auth_verify_def Let_def tokens_delete_absent split: sum.splits list.splits option.splits)

lemma handle_keeps_absent:
  "\<not> issues ev t \<Longrightarrow> toks t = None \<Longrightarrow> snd (handle b e ev (s, toks)) t = None"
  by (cases ev) (simp_all add: magic_link_keeps_absent verify_keeps_absent)

lemma run_keeps_absent:
  "\<forall>ev \<in> set evs. \<not> issues ev t \<Longrightarrow> toks t = None \<Longrightarrow> snd (run b e evs (s, toks)) t = None"
proof (induction evs arbitrary: s toks)
  case Nil
  then show ?case by (simp add: run_def)
next
  case (Cons ev evs)
  obtain s1 toks1 where h: "handle b e ev (s, toks) = (s1, toks1)"
    by (cases "handle b e ev (s, toks)")
  from Cons.prems have "snd (handle b e ev (s, toks)) t = None"
    by (simp add: handle_keeps_absent)
  with h have "toks1 t = None" by simp
  with Cons have "snd (run b e evs (s1, toks1)) t = None" by simp
  with h show ?case by (simp add: run_def)
qed

text \<open>A verify request answers 200 only through the last branch of the handler.\<close>

lemma verify_ok_shape:
  assumes "status (snd (post_auth_verify b s toks body now now' uuid)) = 200"
  shows "\<exists>student. snd (post_auth_verify b s toks body now now' uuid)
           = session_reply uuid (now' + SESSION_DURATION_MS) student"
proof (cases "truthy (get_prop body ''token'')")
  case False
  with assms show ?thesis by (simp add: verify_falsy status_reply)
next
  case tr: True
  show ?thesis
  proof (cases "tokens_get toks (get_prop body ''token'')")
    case None
    with tr assms show ?thesis by (simp add: verify_unknown status_reply)
  next
    case (Some td)
    show ?thesis
    proof (cases "token_expiresAt td < now")
      case True
      from verify_expired [OF tr Some True, where b = b and s = s and now' = now' and uuid = uuid] assms
      show ?thesis by (simp add: status_reply)
    next
      case False
      then have "now \<le> token_expiresAt td" by simp
      from verify_live [OF tr Some this, where b = b and s = s and now' = now' and uuid = uuid] assms
      show ?thesis
        by (auto simp add: status_reply status_failed split: sum.splits list.splits)
    qed
  qed
qed

lemma verify_ok_consumes:
  assumes "status (snd (post_auth_verify b s toks body now now' uuid)) = 200"
    and "get_prop body ''token'' = JStr t"
  shows "t \<noteq> [] \<and> fst (post_auth_verify b s toks body now now' uuid) t = None"
proof (cases "t = []")
  case True
  with assms show ?thesis by (simp add: verify_falsy status_reply)
next
  case False
  then have tr: "truthy (get_prop body ''token'')" using assms(2) by simp
  show ?thesis
  proof (cases "toks t")
    case None
    with tr assms show ?thesis by (simp add: verify_unknown status_reply)
  next
    case (Some td)
    then have g: "tokens_get toks (get_prop body ''token'') = Some td" using assms(2) by simp
    show ?thesis
    proof (cases "token_expiresAt td < now")
      case True
      from verify_expired [OF tr g True, where b = b and s = s and now' = now' and uuid = uuid] assms
      show ?thesis by (simp add: status_reply)
    next
      case F: False
      then have "now \<le> token_expiresAt td" by simp
      from verify_live [OF tr g this, where b = b and s = s and now' = now' and uuid = uuid] assms(2) False
      show ?thesis by simp
    qed
  qed
qed

text \<open>
  C1. After a verify request for the token \<open>t\<close> has answered 200, and after any further
  run of the server in which \<open>uuidv4()\<close> does not return \<open>t\<close> again, every verify request
  for \<open>t\<close> answers 401 "Invalid or expired link" and leaves the token store as it is,
  whatever the clock reads (so also inside the fifteen minutes of the first link) and
  whatever the base answers.
\<close>

theorem redeem_at_most_once:
  assumes "post_auth_verify b s toks body now now' uuid = (toks1, r1)" and "status r1 = 200"
    and "get_prop body ''token'' = JStr t"
    and "\<forall>ev \<in> set evs. \<not> issues ev t"
    and "run b e evs (s, toks1) = (s2, toks2)"
    and "get_prop body2 ''token'' = JStr t"
  shows "post_auth_verify b2 s2 toks2 body2 later later' uuid2 =
           (toks2, reply 401 [(''error'', JStr ''Invalid or expired link'')])"
proof -
  from verify_ok_consumes [of b s toks body now now' uuid t] assms(1-3)
  have t: "t \<noteq> []" and gone: "toks1 t = None" by simp_all
  from run_keeps_absent [of evs t toks1 b e s] assms(4,5) gone have "toks2 t = None" by simp
  with assms(6) t show ?thesis by (simp add: verify_unknown)
qed

theorem redeem_at_most_once_witness:
  "status (snd (post_auth_verify memory_base campus jane_token [(''token'', JStr ''tok-1'')] 1000 1500 ''sess-1'')) = 200
   \<and> \<not> issues (MagicLink [(''email'', JStr ''Jane@Example.com '')] 2000 ''tok-2'' :: memory event) ''tok-1''
   \<and> \<not> issues (BaseEdited campus) ''tok-1''
   \<and> (3000::int) \<le> 900000
   \<and> post_auth_verify memory_base
        (fst (run memory_base bare_env
               [MagicLink [(''email'', JStr ''Jane@Example.com '')] 2000 ''tok-2'', BaseEdited campus]
               (campus, fst (post_auth_verify memory_base campus jane_token [(''token'', JStr ''tok-1'')] 1000 1500 ''sess-1''))))
        (snd (run memory_base bare_env
               [MagicLink [(''email'', JStr ''Jane@Example.com '')] 2000 ''tok-2'', BaseEdited campus]
               (campus, fst (post_auth_verify memory_base campus jane_token [(''token'', JStr ''tok-1'')] 1000 1500 ''sess-1''))))
        [(''token'', JStr ''tok-1'')] 3000 3500 ''sess-2''
      = (snd (run memory_base bare_env
               [MagicLink [(''email'', JStr ''Jane@Example.com '')] 2000 ''tok-2'', BaseEdited campus]
               (campus, fst (post_auth_verify memory_base campus jane_token [(''token'', JStr ''tok-1'')] 1000 1500 ''sess-1''))),
         reply 401 [(''error'', JStr ''Invalid or expired link'')])"
proof -
  let ?body = "[(''token'', JStr ''tok-1'')]"
  let ?V = "post_auth_verify memory_base campus jane_token ?body 1000 1500 ''sess-1''"
  let ?evs = "[MagicLink [(''email'', JStr ''Jane@Example.com '')] 2000 ''tok-2'', BaseEdited campus]"
  let ?R = "run memory_base bare_env ?evs (campus, fst ?V)"
  have ok: "status (snd ?V) = 200"
    by (simp add: first_verify status_session_reply)
  have fresh: "\<forall>ev \<in> set ?evs. \<not> issues ev ''tok-1''" by simp
  have tok: "get_prop ?body ''token'' = JStr ''tok-1''" by (simp add: get_prop_def)
  have "post_auth_verify memory_base (fst ?R) (snd ?R) ?body 3000 3500 ''sess-2''
          = (snd ?R, reply 401 [(''error'', JStr ''Invalid or expired link'')])"
    by (rule redeem_at_most_once [of memory_base campus jane_token ?body 1000 1500 "''sess-1''"
          "fst ?V" "snd ?V" "''tok-1''" ?evs bare_env "fst ?R" "snd ?R" ?body,
          OF _ ok tok fresh _ tok])
       simp_all
  with ok fresh show ?thesis by simp
qed

subsection \<open>Session lifetime\<close>

lemma session_of_session_reply:
  "session_of (session_reply t x st) = JObj [(''token'', JStr t), (''expiresAt'', JNum x)]"
  by (simp add: session_of_def session_reply_def reply_def get_prop_def)

lemma dev_login_ok_shape:
  "status (post_auth_dev_login b e s body now uuid) = 200 \<longrightarrow>
   (\<exists>student. post_auth_dev_login b e s body now uuid
           = session_reply uuid (now + SESSION_DURATION_MS) student)"
  by (auto simp add: post_auth_dev_login_def Let_def status_reply status_failed
      split: sum.splits list.splits)

text \<open>
  C9. A session is minted only by a 200 answer of the verify handler or of the dev-login
  handler. In both its \<open>expiresAt\<close> is the reading of \<open>Date.now()\<close> taken at the minting
  plus \<open>SESSION_DURATION_MS\<close>, and that constant is six months of thirty days, in
  milliseconds.
\<close>

theorem session_six_months:
  "(status (snd (post_auth_verify b s toks body now now' uuid)) = 200 \<longrightarrow>
      session_of (snd (post_auth_verify b s toks body now now' uuid))
        = JObj [(''token'', JStr uuid), (''expiresAt'', JNum (now' + SESSION_DURATION_MS))])
   \<and> (status (post_auth_dev_login b e s body2 now uuid) = 200 \<longrightarrow>
      session_of (post_auth_dev_login b e s body2 now uuid)
        = JObj [(''token'', JStr uuid), (''expiresAt'', JNum (now + SESSION_DURATION_MS))])
   \<and> SESSION_DURATION_MS = 6 * (30 * (24 * 60 * 60 * 1000))"
proof (intro conjI impI)
  assume "status (snd (post_auth_verify b s toks body now now' uuid)) = 200"
  from verify_ok_shape [OF this]
  show "session_of (snd (post_auth_verify b s toks body now now' uuid))
        = JObj [(''token'', JStr uuid), (''expiresAt'', JNum (now' + SESSION_DURATION_MS))]"
    by (auto simp add: session_of_session_reply)
next
  assume "status (post_auth_dev_login b e s body2 now uuid) = 200"
  with dev_login_ok_shape [of b e s body2 now uuid]
  show "session_of (post_auth_dev_login b e s body2 now uuid)
        = JObj [(''token'', JStr uuid), (''expiresAt'', JNum (now + SESSION_DURATION_MS))]"
    by (auto simp add: session_of_session_reply)
next
  show "SESSION_DURATION_MS = 6 * (30 * (24 * 60 * 60 * 1000))"
    by (simp add: SESSION_DURATION_MS_def)
qed

theorem session_six_months_witness:
  "status (snd (post_auth_verify memory_base campus jane_token [(''token'', JStr ''tok-1'')] 1000 1500 ''sess-1'')) = 200
   \<and> session_of (snd (post_auth_verify memory_base campus jane_token [(''token'', JStr ''tok-1'')] 1000 1500 ''sess-1''))
        = JObj [(''token'', JStr ''sess-1''), (''expiresAt'', JNum 15552001500)]
   \<and> status (post_auth_dev_login memory_base dev_env campus [(''email'', JStr ''Jane@Example.com '')] 1000 ''sess-1'') = 200
   \<and> session_of (post_auth_dev_login memory_base dev_env campus [(''email'', JStr ''Jane@Example.com '')] 1000 ''sess-1'')
        = JObj [(''token'', JStr ''sess-1''), (''expiresAt'', JNum 15552001000)]"
proof -
  have v: "status (snd (post_auth_verify memory_base campus jane_token [(''token'', JStr ''tok-1'')] 1000 1500 ''sess-1'')) = 200"
    by (simp add: first_verify status_session_reply)
  have d: "status (post_auth_dev_login memory_base dev_env campus [(''email'', JStr ''Jane@Example.com '')] 1000 ''sess-1'') = 200"
    by (simp add: dev_login_jane status_session_reply)
  from session_six_months [of memory_base campus jane_token "[(''token'', JStr ''tok-1'')]" 1000 1500
      "''sess-1''" dev_env "[(''email'', JStr ''Jane@Example.com '')]"] v d
  show ?thesis by (simp add: SESSION_DURATION_MS_def)
qed

subsection \<open>Redeeming a link whose student is gone\<close>

text \<open>
  C8. A verify request for a token that is in the store and not expired, whose bound email
  selects no student, answers 404 "Student not found" (not the 401 of an invalid or
  expired link), and the token is gone from the store. The store after the request is the
  same whatever the base answers to the lookup (\<open>b'\<close>, \<open>s'\<close>): the removal does not wait
  for it.
\<close>

theorem redeem_student_gone:
  assumes "get_prop body ''token'' = JStr t" and "t \<noteq> []" and "toks t = Some td"
    and "now \<le> token_expiresAt td"
    and "select_students b s (email_formula (token_email td)) = Inr []"
  shows "post_auth_verify b s toks body now now' uuid
           = (toks(t := None), reply 404 [(''error'', JStr ''Student not found'')])
       \<and> status (snd (post_auth_verify b s toks body now now' uuid)) \<noteq> 401
       \<and> fst (post_auth_verify b' s' toks body now now' uuid) = toks(t := None)"
proof -
  from assms have tr: "truthy (get_prop body ''token'')"
    and g: "tokens_get toks (get_prop body ''token'') = Some td" by simp_all
  note vl = verify_live [OF tr g assms(4)]
  from vl [of b s now' uuid] vl [of b' s' now' uuid] assms(1,5) show ?thesis
    by (simp add: status_reply)
qed


theorem redeem_student_gone_witness:
  "(1000::int) \<le> 900000
   \<and> select_students memory_base campus_without_jane (email_formula ''jane@example.com'') = Inr []
   \<and> post_auth_verify memory_base campus_without_jane jane_token [(''token'', JStr ''tok-1'')] 1000 1500 ''sess-1''
       = (jane_token(''tok-1'' := None), reply 404 [(''error'', JStr ''Student not found'')])
   \<and> (jane_token(''tok-1'' := None)) ''tok-1'' = None"
proof -
  have sel: "select_students memory_base campus_without_jane (email_formula ''jane@example.com'') = Inr []"
    by (simp add: memory_base_def memory_select_def campus_without_jane_def)
  have tok: "get_prop [(''token'', JStr ''tok-1'')] ''token'' = JStr ''tok-1''"
    by (simp add: get_prop_def)
  have held: "jane_token ''tok-1'' = Some \<lparr>token_email = ''jane@example.com'', token_expiresAt = 900000\<rparr>"
    by (simp add: jane_token_def)
  have "post_auth_verify memory_base campus_without_jane jane_token [(''token'', JStr ''tok-1'')] 1000 1500 ''sess-1''
       = (jane_token(''tok-1'' := None), reply 404 [(''error'', JStr ''Student not found'')])"
    using redeem_student_gone [where body = "[(''token'', JStr ''tok-1'')]" and t = "''tok-1''"
        and toks = jane_token and now = 1000 and b = memory_base and s = campus_without_jane
        and td = "\<lparr>token_email = ''jane@example.com'', token_expiresAt = 900000\<rparr>"
        and now' = 1500 and uuid = "''sess-1''" and b' = memory_base and s' = campus] tok held sel
    by simp
  with sel show ?thesis by simp
qed

subsection \<open>The fifteen minutes of a link\<close>

lemma magic_link_ok_stores:
  "status (snd (post_auth_magic_link b e s toks body now uuid)) = 200 \<longrightarrow>
   (\<exists>em. fst (post_auth_magic_link b e s toks body now uuid)
          = toks(uuid \<mapsto> \<lparr>token_email = em, token_expiresAt = now + 15 * 60 * 1000\<rparr>))"
  by (auto simp add: post_auth_magic_link_def Let_def status_reply status_failed
      split: sum.splits list.splits option.splits)

text \<open>
  C2. When the magic-link handler, reading the clock at \<open>t0\<close>, answers 200 with the token
  \<open>uuid\<close> (a non-empty string, as every uuid is), the store holds that token with expiry
  \<open>t0 + 15 * 60 * 1000\<close>; a verify request for it at any later clock reading above that
  expiry answers 401, and one at any reading below it answers 200 when the base still
  selects a student for the bound email.
\<close>

theorem token_window:
  assumes "post_auth_magic_link b e s toks body t0 uuid = (toks1, r)" and "status r = 200"
    and "uuid \<noteq> []"
  shows "\<exists>td. toks1 uuid = Some td \<and> token_expiresAt td = t0 + 15 * 60 * 1000 \<and>
           (t0 + 15 * 60 * 1000 < late \<longrightarrow>
              status (snd (post_auth_verify b' s' toks1 [(''token'', JStr uuid)] late late' u)) = 401) \<and>
           (early < t0 + 15 * 60 * 1000 \<longrightarrow>
              select_students b' s' (email_formula (token_email td)) = Inr (student # others) \<longrightarrow>
              status (snd (post_auth_verify b' s' toks1 [(''token'', JStr uuid)] early early' u)) = 200)"
proof -
  from magic_link_ok_stores [of b e s toks body t0 uuid] assms(1,2)
  obtain em where toks1: "toks1 = toks(uuid \<mapsto> \<lparr>token_email = em, token_expiresAt = t0 + 15 * 60 * 1000\<rparr>)"
    by auto
  let ?td = "\<lparr>token_email = em, token_expiresAt = t0 + 15 * 60 * 1000\<rparr>"
  let ?body = "[(''token'', JStr uuid)]"
  have tr: "truthy (get_prop ?body ''token'')" using assms(3) by (simp add: get_prop_def)
  have g: "tokens_get toks1 (get_prop ?body ''token'') = Some ?td"
    by (simp add: get_prop_def toks1)
  have late: "status (snd (post_auth_verify b' s' toks1 ?body late late' u)) = 401"
    if "t0 + 15 * 60 * 1000 < late"
  proof -
    from that have "token_expiresAt ?td < late" by simp
    from verify_expired [OF tr g this, of b' s' late' u] show ?thesis by (simp add: status_reply)
  qed
  have early: "status (snd (post_auth_verify b' s' toks1 ?body early early' u)) = 200"
    if "early < t0 + 15 * 60 * 1000"
      and "select_students b' s' (email_formula (token_email ?td)) = Inr (student # others)"
  proof -
    from that(1) have "early \<le> token_expiresAt ?td" by simp
    from verify_live [OF tr g this, of b' s' early' u] that(2) show ?thesis
      by (simp add: status_session_reply)
  qed
  from late early toks1 show ?thesis by (intro exI [of _ ?td]) simp
qed

lemma first_name_jane: "first_name jane = Inr (JStr ''Jane'')"
  by (simp add: first_name_def rec_get_def jane_def js_or_def split_first_def)

lemma issue_jane:
  "post_auth_magic_link memory_base bare_env campus Map.empty [(''email'', JStr ''Jane@Example.com '')]
       1700000000000 ''tok-1''
   = ([''tok-1'' \<mapsto> \<lparr>token_email = ''jane@example.com'', token_expiresAt = 1700000900000\<rparr>],
      reply 200 [(''success'', JBool True), (''message'', JStr ''Magic link generated''),
                 (''devMode'', JBool True),
                 (''magicLink'', JStr ''http://localhost:3000?token=tok-1'')])"
  by (simp add: post_auth_magic_link_def Let_def get_prop_def normalize_jane select_jane
      first_name_jane bare_env_def env_or_def)

theorem token_window_witness:
  "status (snd (post_auth_magic_link memory_base bare_env campus Map.empty
                  [(''email'', JStr ''Jane@Example.com '')] 1700000000000 ''tok-1'')) = 200
   \<and> ''tok-1'' \<noteq> []
   \<and> map_option token_expiresAt
        (fst (post_auth_magic_link memory_base bare_env campus Map.empty
                  [(''email'', JStr ''Jane@Example.com '')] 1700000000000 ''tok-1'') ''tok-1'')
       = Some (1700000000000 + 15 * 60 * 1000)
   \<and> (1700000000000::int) + 15 * 60 * 1000 < 1700000901000
   \<and> status (snd (post_auth_verify memory_base campus
        (fst (post_auth_magic_link memory_base bare_env campus Map.empty
                  [(''email'', JStr ''Jane@Example.com '')] 1700000000000 ''tok-1''))
        [(''token'', JStr ''tok-1'')] 1700000901000 1700000901002 ''sess-1'')) = 401
   \<and> (1700000899000::int) < 1700000000000 + 15 * 60 * 1000
   \<and> select_students memory_base campus (email_formula ''jane@example.com'') = Inr (jane # [])
   \<and> status (snd (post_auth_verify memory_base campus
        (fst (post_auth_magic_link memory_base bare_env campus Map.empty
                  [(''email'', JStr ''Jane@Example.com '')] 1700000000000 ''tok-1''))
        [(''token'', JStr ''tok-1'')] 1700000899000 1700000899002 ''sess-1'')) = 200"
proof -
  let ?M = "post_auth_magic_link memory_base bare_env campus Map.empty
                  [(''email'', JStr ''Jane@Example.com '')] 1700000000000 ''tok-1''"
  have ok: "status (snd ?M) = 200" by (simp add: issue_jane status_reply)
  have ne: "''tok-1'' \<noteq> []" by simp
  have M: "?M = (fst ?M, snd ?M)" by simp
  from token_window [OF M ok ne, of 1700000901000 memory_base campus 1700000901002 "''sess-1''"
      1700000899000 jane "[]" 1700000899002]
  obtain td where td: "fst ?M ''tok-1'' = Some td"
    and ex: "token_expiresAt td = 1700000000000 + 15 * 60 * 1000"
    and late: "1700000000000 + 15 * 60 * 1000 < (1700000901000::int) \<longrightarrow>
        status (snd (post_auth_verify memory_base campus (fst ?M) [(''token'', JStr ''tok-1'')]
                      1700000901000 1700000901002 ''sess-1'')) = 401"
    and early: "(1700000899000::int) < 1700000000000 + 15 * 60 * 1000 \<longrightarrow>
        select_students memory_base campus (email_formula (token_email td)) = Inr [jane] \<longrightarrow>
        status (snd (post_auth_verify memory_base campus (fst ?M) [(''token'', JStr ''tok-1'')]
                      1700000899000 1700000899002 ''sess-1'')) = 200"
    by blast
  from td have "td = \<lparr>token_email = ''jane@example.com'', token_expiresAt = 1700000900000\<rparr>"
    by (simp add: issue_jane)
  with td ex late early ok show ?thesis by (simp add: select_jane)
qed

subsection \<open>Hydration\<close>

lemma map_of_set_prop: "map_of (set_prop k v obj) = (map_of obj)(k \<mapsto> v)"
  by (simp add: set_prop_def update_conv')

lemma map_of_spread_absent: "k \<notin> fst ` set fs \<Longrightarrow> map_of (spread obj fs) k = map_of obj k"
proof (induction fs arbitrary: obj)
  case Nil
  then show ?case by (simp add: spread_def)
next
  case (Cons f fs)
  obtain k' c where f: "f = (k', c)" by (cases f)
  with Cons.prems have ne: "k' \<noteq> k" and rest: "k \<notin> fst ` set fs" by auto
  have "spread obj (f # fs) = spread (set_prop k' (js_of_cell c) obj) fs"
    by (simp add: spread_def f)
  with Cons.IH [OF rest] ne show ?case by (simp add: map_of_set_prop)
qed

lemma getMentorById_None: "getMentorById b s i = None \<longleftrightarrow> isl (find_mentor b s i)"
  by (simp add: getMentorById_def split: sum.splits)

lemma getMeetingById_None: "getMeetingById b s i = None \<longleftrightarrow> isl (find_meeting b s i)"
  by (simp add: getMeetingById_def Let_def split: sum.splits option.splits)

lemma hydrate_mentor_other:
  "k \<noteq> key \<Longrightarrow> map_of (hydrate_mentor b s r link key st) k = map_of st k"
  by (simp add: hydrate_mentor_def map_of_set_prop split: option.splits)

lemma hydrate_mentor_unresolved:
  "\<forall>i. first_link (map_of (rec_fields r) link) = Some i \<longrightarrow> isl (find_mentor b s i) \<Longrightarrow>
   hydrate_mentor b s r link key st = st"
  by (auto simp add: hydrate_mentor_def getMentorById_None [symmetric] split: option.splits)

lemma hydrateStudent_typed:
  assumes "\<forall>c cs. map_of (rec_fields r) ''Student-Mentor Meetings'' \<noteq> Some (CText (c # cs))"
  shows "hydrateStudent b s r =
     Inr (set_prop ''meetings'' (JArr (map JObj (non_null (map (getMeetingById b s) (meeting_ids r)))))
           (hydrate_mentor b s r ''Lead Mentor'' ''leadMentor''
             (hydrate_mentor b s r ''Recruitment Manager'' ''recruitmentManager''
               (spread [(''id'', JStr (rec_id r))] (rec_fields r)))))"
  using assms
  by (simp add: hydrateStudent_def meeting_ids_def Let_def split: option.splits cell.splits list.splits)

lemma non_null_map:
  "non_null (map f xs) = map (\<lambda>x. the (f x)) (filter (\<lambda>x. f x \<noteq> None) xs)"
  by (induction xs) (auto split: option.splits)

lemma non_null_all_None: "\<forall>x \<in> set xs. f x = None \<Longrightarrow> non_null (map f xs) = []"
  by (induction xs) simp_all

text \<open>
  C4. For a student record whose \<open>Student-Mentor Meetings\<close> cell is absent or an array of
  ids (not a text), and that has no raw column named \<open>recruitmentManager\<close> or
  \<open>leadMentor\<close>, \<open>hydrateStudent\<close> returns a student whatever the base answers. When the
  recruitment-manager link is empty or its lookup rejects, the result has no
  \<open>recruitmentManager\<close> key; likewise \<open>leadMentor\<close>; when there are no meeting ids or
  every meeting lookup rejects, \<open>meetings\<close> is the empty array; and in general \<open>meetings\<close>
  holds exactly as many objects as there are meeting ids whose lookup did not reject, so
  an id that does not resolve leaves no entry behind.
\<close>

theorem hydrate_null_safe:
  assumes "\<forall>c cs. map_of (rec_fields r) ''Student-Mentor Meetings'' \<noteq> Some (CText (c # cs))"
    and "''recruitmentManager'' \<notin> fst ` set (rec_fields r)"
    and "''leadMentor'' \<notin> fst ` set (rec_fields r)"
  shows "\<exists>student. hydrateStudent b s r = Inr student
     \<and> ((\<forall>i. first_link (map_of (rec_fields r) ''Recruitment Manager'') = Some i \<longrightarrow> isl (find_mentor b s i))
          \<longrightarrow> map_of student ''recruitmentManager'' = None)
     \<and> ((\<forall>i. first_link (map_of (rec_fields r) ''Lead Mentor'') = Some i \<longrightarrow> isl (find_mentor b s i))
          \<longrightarrow> map_of student ''leadMentor'' = None)
     \<and> ((\<forall>i \<in> set (meeting_ids r). isl (find_meeting b s i))
          \<longrightarrow> map_of student ''meetings'' = Some (JArr []))
     \<and> (\<exists>ms. map_of student ''meetings'' = Some (JArr (map JObj ms))
           \<and> length ms = length (filter (\<lambda>i. \<not> isl (find_meeting b s i)) (meeting_ids r)))"
proof -
  let ?copy = "spread [(''id'', JStr (rec_id r))] (rec_fields r)"
  let ?rm = "hydrate_mentor b s r ''Recruitment Manager'' ''recruitmentManager'' ?copy"
  let ?lm = "hydrate_mentor b s r ''Lead Mentor'' ''leadMentor'' ?rm"
  let ?ms = "non_null (map (getMeetingById b s) (meeting_ids r))"
  let ?student = "set_prop ''meetings'' (JArr (map JObj ?ms)) ?lm"
  have run: "hydrateStudent b s r = Inr ?student"
    by (rule hydrateStudent_typed [OF assms(1)])
  have copy_rm: "map_of ?copy ''recruitmentManager'' = None"
    using assms(2) by (simp add: map_of_spread_absent)
  have copy_lm: "map_of ?copy ''leadMentor'' = None"
    using assms(3) by (simp add: map_of_spread_absent)
  have rm: "map_of ?student ''recruitmentManager'' = None"
    if "\<forall>i. first_link (map_of (rec_fields r) ''Recruitment Manager'') = Some i \<longrightarrow> isl (find_mentor b s i)"
    using hydrate_mentor_unresolved [OF that, of "''recruitmentManager''" ?copy] copy_rm
    by (simp add: map_of_set_prop hydrate_mentor_other)
  have lm: "map_of ?student ''leadMentor'' = None"
    if "\<forall>i. first_link (map_of (rec_fields r) ''Lead Mentor'') = Some i \<longrightarrow> isl (find_mentor b s i)"
    using hydrate_mentor_unresolved [OF that, of "''leadMentor''" ?rm] copy_lm
    by (simp add: map_of_set_prop hydrate_mentor_other)
  have none: "map_of ?student ''meetings'' = Some (JArr [])"
    if "\<forall>i \<in> set (meeting_ids r). isl (find_meeting b s i)"
  proof -
    from that have "\<forall>i \<in> set (meeting_ids r). getMeetingById b s i = None"
      by (simp add: getMeetingById_None)
    then have "?ms = []" by (rule non_null_all_None)
    then show ?thesis by (simp add: map_of_set_prop)
  qed
  have len: "length ?ms = length (filter (\<lambda>i. \<not> isl (find_meeting b s i)) (meeting_ids r))"
    by (simp add: non_null_map getMeetingById_None)
  have "map_of ?student ''meetings'' = Some (JArr (map JObj ?ms))"
    by (simp add: map_of_set_prop)
  with len have "\<exists>ms. map_of ?student ''meetings'' = Some (JArr (map JObj ms))
           \<and> length ms = length (filter (\<lambda>i. \<not> isl (find_meeting b s i)) (meeting_ids r))"
    by blast
  with run rm lm none show ?thesis by blast
qed

lemma gone_mentor: "isl (find_mentor memory_base campus ''recGone'')"
  by (simp add: memory_base_def memory_find_def campus_def)

lemma gone_meetings:
  "isl (find_meeting memory_base campus ''recGone'') \<and> isl (find_meeting memory_base campus ''recLost'')"
  by (simp add: memory_base_def memory_find_def campus_def)

theorem hydrate_null_safe_witness:
  "map_of (rec_fields sam) ''Student-Mentor Meetings'' = Some (CList [''recGone'', ''recLost''])
   \<and> ''recruitmentManager'' \<notin> fst ` set (rec_fields sam)
   \<and> ''leadMentor'' \<notin> fst ` set (rec_fields sam)
   \<and> first_link (map_of (rec_fields sam) ''Recruitment Manager'') = Some ''recGone''
   \<and> isl (find_mentor memory_base campus ''recGone'')
   \<and> first_link (map_of (rec_fields sam) ''Lead Mentor'') = None
   \<and> isl (find_meeting memory_base campus ''recGone'')
   \<and> isl (find_meeting memory_base campus ''recLost'')
   \<and> (\<exists>student. hydrateStudent memory_base campus sam = Inr student
         \<and> map_of student ''recruitmentManager'' = None
         \<and> map_of student ''leadMentor'' = None
         \<and> map_of student ''meetings'' = Some (JArr []))"
proof -
  have typed: "\<forall>c cs. map_of (rec_fields sam) ''Student-Mentor Meetings'' \<noteq> Some (CText (c # cs))"
    by (simp add: sam_def)
  have k1: "''recruitmentManager'' \<notin> fst ` set (rec_fields sam)" by (simp add: sam_def)
  have k2: "''leadMentor'' \<notin> fst ` set (rec_fields sam)" by (simp add: sam_def)
  have rm: "first_link (map_of (rec_fields sam) ''Recruitment Manager'') = Some ''recGone''"
    by (simp add: sam_def)
  have lm: "first_link (map_of (rec_fields sam) ''Lead Mentor'') = None"
    by (simp add: sam_def)
  have ids: "meeting_ids sam = [''recGone'', ''recLost'']"
    by (simp add: meeting_ids_def sam_def)
  from hydrate_null_safe [OF typed k1 k2, of memory_base campus]
  obtain student where "hydrateStudent memory_base campus sam = Inr student"
    and "(\<forall>i. first_link (map_of (rec_fields sam) ''Recruitment Manager'') = Some i \<longrightarrow> isl (find_mentor memory_base campus i))
          \<longrightarrow> map_of student ''recruitmentManager'' = None"
    and "(\<forall>i. first_link (map_of (rec_fields sam) ''Lead Mentor'') = Some i \<longrightarrow> isl (find_mentor memory_base campus i))
          \<longrightarrow> map_of student ''leadMentor'' = None"
    and "(\<forall>i \<in> set (meeting_ids sam). isl (find_meeting memory_base campus i))
          \<longrightarrow> map_of student ''meetings'' = Some (JArr [])"
    by blast
  with rm lm ids gone_mentor gone_meetings
  have "\<exists>student. hydrateStudent memory_base campus sam = Inr student
         \<and> map_of student ''recruitmentManager'' = None
         \<and> map_of student ''leadMentor'' = None
         \<and> map_of student ''meetings'' = Some (JArr [])"
    by auto
  with k1 k2 rm lm gone_mentor gone_meetings show ?thesis by (simp add: sam_def)
qed

text \<open>
  C5. For a student record whose \<open>Student-Mentor Meetings\<close> cell is the array \<open>ids\<close>,
  \<open>hydrateStudent\<close> returns a student whose \<open>meetings\<close> is the list of the resolved
  meeting objects of those ids that resolve, in the order the ids have in \<open>ids\<close>.
\<close>

theorem hydrate_keeps_order:
  assumes "map_of (rec_fields r) ''Student-Mentor Meetings'' = Some (CList ids)"
  shows "\<exists>student. hydrateStudent b s r = Inr student
     \<and> map_of student ''meetings''
         = Some (JArr (map (\<lambda>i. JObj (the (getMeetingById b s i)))
                        (filter (\<lambda>i. getMeetingById b s i \<noteq> None) ids)))"
proof -
  from assms have typed: "\<forall>c cs. map_of (rec_fields r) ''Student-Mentor Meetings'' \<noteq> Some (CText (c # cs))"
    by simp
  from assms have ids: "meeting_ids r = ids" by (simp add: meeting_ids_def)
  show ?thesis
    by (simp add: hydrateStudent_typed [OF typed] ids map_of_set_prop non_null_map comp_def)
qed

lemma meeting_one:
  "getMeetingById memory_base campus ''recMeet1''
     = Some [(''id'', JStr ''recMeet1''), (''Mentors Attended'', JArr [JStr ''recAda'']),
             (''mentorAttended'', JObj [(''id'', JStr ''recAda''), (''name'', JStr ''Ada''),
                                        (''Name'', JStr ''Ada'')])]"
  by (simp add: getMeetingById_def getMentorById_def memory_base_def memory_find_def campus_def
      spread_def set_prop_def rec_get_def)

lemma meeting_two:
  "getMeetingById memory_base campus ''recMeet2''
     = Some [(''id'', JStr ''recMeet2''), (''Notes'', JStr ''resume review'')]"
  by (simp add: getMeetingById_def memory_base_def memory_find_def campus_def
      spread_def set_prop_def)

lemma meeting_gone: "getMeetingById memory_base campus ''recGone'' = None"
  by (simp add: getMeetingById_None gone_meetings)

theorem hydrate_keeps_order_witness:
  "map_of (rec_fields jane) ''Student-Mentor Meetings'' = Some (CList [''recMeet1'', ''recGone'', ''recMeet2''])
   \<and> (\<exists>student. hydrateStudent memory_base campus jane = Inr student
        \<and> map_of student ''meetings''
            = Some (JArr [JObj [(''id'', JStr ''recMeet1''), (''Mentors Attended'', JArr [JStr ''recAda'']),
                                (''mentorAttended'', JObj [(''id'', JStr ''recAda''), (''name'', JStr ''Ada''),
                                                           (''Name'', JStr ''Ada'')])],
                          JObj [(''id'', JStr ''recMeet2''), (''Notes'', JStr ''resume review'')]]))"
proof -
  have ids: "map_of (rec_fields jane) ''Student-Mentor Meetings'' = Some (CList [''recMeet1'', ''recGone'', ''recMeet2''])"
    by (simp add: jane_def)
  from hydrate_keeps_order [OF ids, of memory_base campus] ids show ?thesis
    by (simp add: meeting_one meeting_two meeting_gone)
qed

subsection \<open>The update patch\<close>

lemma update_fresh: "k \<notin> fst ` set al \<Longrightarrow> AList.update k v al = al @ [(k, v)]"
  by (induction al) auto

lemma add_field_cases:
  "add_field u f acc =
     (if field_in f u \<and> field_of u f \<noteq> JNull \<and> field_of u f \<noteq> JUndefined
      then set_prop f (field_of u f) acc else acc)"
  by (simp add: add_field_def Let_def)

lemma fold_add_field:
  "distinct fs \<Longrightarrow> set fs \<inter> fst ` set acc = {} \<Longrightarrow>
   fold (add_field u) fs acc =
     acc @ map (\<lambda>f. (f, field_of u f))
             (filter (\<lambda>f. field_in f u \<and> field_of u f \<noteq> JNull \<and> field_of u f \<noteq> JUndefined) fs)"
proof (induction fs arbitrary: acc)
  case Nil
  then show ?case by simp
next
  case (Cons f fs)
  from Cons.prems have fresh: "f \<notin> fst ` set acc" and d: "distinct fs" and nf: "f \<notin> set fs"
    and disj: "set fs \<inter> fst ` set acc = {}" by auto
  show ?case
  proof (cases "field_in f u \<and> field_of u f \<noteq> JNull \<and> field_of u f \<noteq> JUndefined")
    case True
    then have step: "add_field u f acc = acc @ [(f, field_of u f)]"
      using fresh by (simp add: add_field_cases set_prop_def update_fresh)
    from disj nf have "set fs \<inter> fst ` set (acc @ [(f, field_of u f)]) = {}" by auto
    from Cons.IH [OF d this] step True show ?thesis by simp
  next
    case False
    then have step: "add_field u f acc = acc" by (auto simp add: add_field_cases)
    from Cons.IH [OF d disj] step False show ?thesis by auto
  qed
qed

lemma distinct_allowedFields: "distinct allowedFields"
  by (simp add: allowedFields_def)

lemma fieldsToUpdate_eq:
  "fieldsToUpdate u =
     map (\<lambda>f. (f, field_of u f))
       (filter (\<lambda>f. field_in f u \<and> field_of u f \<noteq> JNull \<and> field_of u f \<noteq> JUndefined) allowedFields)"
  using fold_add_field [OF distinct_allowedFields, of "[]" u] by (simp add: fieldsToUpdate_def)

lemma map_of_graph: "map_of (map (\<lambda>f. (f, g f)) xs) k = (if k \<in> set xs then Some (g k) else None)"
  by (induction xs) auto

lemma map_of_fieldsToUpdate:
  "map_of (fieldsToUpdate u) k =
     (if k \<in> set allowedFields \<and> field_in k u \<and> field_of u k \<noteq> JNull \<and> field_of u k \<noteq> JUndefined
      then Some (field_of u k) else None)"
  by (simp add: fieldsToUpdate_eq map_of_graph)

lemma fieldsToUpdate_cong:
  assumes "\<And>f. f \<in> set allowedFields \<Longrightarrow> kept u' f = kept u f"
    and "\<And>f. f \<in> set allowedFields \<Longrightarrow> kept u f \<Longrightarrow> field_of u' f = field_of u f"
  shows "fieldsToUpdate u' = fieldsToUpdate u"
proof -
  from assms(1) have "filter (kept u') allowedFields = filter (kept u) allowedFields"
    by (intro filter_cong) auto
  moreover from assms(2)
  have "map (\<lambda>f. (f, field_of u' f)) (filter (kept u) allowedFields)
      = map (\<lambda>f. (f, field_of u f)) (filter (kept u) allowedFields)"
    by (intro map_cong) auto
  ultimately show ?thesis by (simp add: fieldsToUpdate_eq)
qed

lemma fieldsToUpdate_agree:
  "\<forall>f \<in> set allowedFields. map_of kvs' f = map_of kvs f \<Longrightarrow>
   fieldsToUpdate (JObj kvs') = fieldsToUpdate (JObj kvs)"
  by (rule fieldsToUpdate_cong) (simp_all add: get_prop_def)

lemma update_by_patch:
  assumes "get_prop body' ''email'' = get_prop body ''email''"
    and "get_prop body ''updates'' = JObj kvs" and "get_prop body' ''updates'' = JObj kvs'"
    and "fieldsToUpdate (JObj kvs') = fieldsToUpdate (JObj kvs)"
  shows "post_student_update b s body' = post_student_update b s body"
  unfolding post_student_update_def Let_def assms(1,2,3) truthy.simps typeof_object.simps assms(4)
  by (rule refl)

text \<open>What a successful hydration looks like, and what it keeps of the record's cells.\<close>

lemma map_of_spread_distinct:
  "distinct (map fst fs) \<Longrightarrow>
   map_of (spread obj fs) k = (case map_of fs k of None \<Rightarrow> map_of obj k | Some c \<Rightarrow> Some (js_of_cell c))"
proof (induction fs arbitrary: obj)
  case Nil
  then show ?case by (simp add: spread_def)
next
  case (Cons f fs)
  obtain k' c where f: "f = (k', c)" by (cases f)
  with Cons.prems have fresh: "k' \<notin> fst ` set fs" and d: "distinct (map fst fs)" by auto
  have step: "spread obj (f # fs) = spread (set_prop k' (js_of_cell c) obj) fs"
    by (simp add: spread_def f)
  from fresh have none: "map_of fs k' = None" by (simp add: map_of_eq_None_iff)
  show ?case
  proof (cases "k = k'")
    case True
    with Cons.IH [OF d, of "set_prop k' (js_of_cell c) obj"] step none f show ?thesis
      by (simp add: map_of_set_prop split: option.splits)
  next
    case False
    with Cons.IH [OF d, of "set_prop k' (js_of_cell c) obj"] step f show ?thesis
      by (simp add: map_of_set_prop split: option.splits)
  qed
qed

lemma hydrateStudent_Inr:
  assumes "hydrateStudent b s r = Inr student"
  shows "\<exists>ms. student =
     set_prop ''meetings'' (JArr ms)
       (hydrate_mentor b s r ''Lead Mentor'' ''leadMentor''
         (hydrate_mentor b s r ''Recruitment Manager'' ''recruitmentManager''
           (spread [(''id'', JStr (rec_id r))] (rec_fields r))))"
proof (cases "\<exists>c cs. map_of (rec_fields r) ''Student-Mentor Meetings'' = Some (CText (c # cs))")
  case True
  then have "\<exists>err. hydrateStudent b s r = Inl err"
    by (auto simp add: hydrateStudent_def Let_def)
  with assms show ?thesis by auto
next
  case False
  then have "\<forall>c cs. map_of (rec_fields r) ''Student-Mentor Meetings'' \<noteq> Some (CText (c # cs))"
    by simp
  from hydrateStudent_typed [OF this, of b s] assms show ?thesis by auto
qed

lemma allowed_not_added:
  "k \<in> set allowedFields \<Longrightarrow>
   k \<noteq> ''id'' \<and> k \<noteq> ''recruitmentManager'' \<and> k \<noteq> ''leadMentor'' \<and> k \<noteq> ''meetings''"
  by (auto simp add: allowedFields_def)

lemma hydrated_allowed_field:
  assumes "hydrateStudent b s r = Inr student" and "distinct (map fst (rec_fields r))"
    and "k \<in> set allowedFields"
  shows "map_of student k = map_option js_of_cell (map_of (rec_fields r) k)"
proof -
  from hydrateStudent_Inr [OF assms(1)] obtain ms where st: "student =
     set_prop ''meetings'' (JArr ms)
       (hydrate_mentor b s r ''Lead Mentor'' ''leadMentor''
         (hydrate_mentor b s r ''Recruitment Manager'' ''recruitmentManager''
           (spread [(''id'', JStr (rec_id r))] (rec_fields r))))" by blast
  from allowed_not_added [OF assms(3)]
  have "map_of student k = map_of (spread [(''id'', JStr (rec_id r))] (rec_fields r)) k"
    by (simp add: st map_of_set_prop hydrate_mentor_other)
  also from allowed_not_added [OF assms(3)]
  have "\<dots> = map_option js_of_cell (map_of (rec_fields r) k)"
    by (simp add: map_of_spread_distinct [OF assms(2)] split: option.splits)
  finally show ?thesis .
qed

text \<open>
  A request that passes the checks and finds its student goes on to
  \<open>base('Students').update\<close> with the record's id and \<open>fieldsToUpdate\<close>, and answers by
  what the base and the hydration of the updated record give.
\<close>

lemma update_writes_patch:
  assumes "get_prop body ''email'' = JStr em" and "em \<noteq> []"
    and "get_prop body ''updates'' = JObj kvs"
    and "select_students b s (email_formula (trim (toLowerCase em))) = Inr (studentRecord # others)"
  shows "post_student_update b s body =
     (case update_student b s (rec_id studentRecord) (fieldsToUpdate (JObj kvs)) of
        Inl err \<Rightarrow> (s, failed ''Failed to update student profile'' err)
      | Inr (s', updatedRecord) \<Rightarrow>
          (case hydrateStudent b s' updatedRecord of
             Inl err \<Rightarrow> (s', failed ''Failed to update student profile'' err)
           | Inr updatedStudent \<Rightarrow>
               (s', reply 200 [(''success'', JBool True), (''student'', JObj updatedStudent)])))"
  using assms by (simp add: post_student_update_def Let_def)

lemma update_written:
  assumes "get_prop body ''email'' = JStr em" and "em \<noteq> []"
    and "get_prop body ''updates'' = JObj kvs"
    and "select_students b s (email_formula (trim (toLowerCase em))) = Inr (studentRecord # others)"
    and "update_student b s (rec_id studentRecord) (fieldsToUpdate (JObj kvs)) = Inr (s', updatedRecord)"
    and "hydrateStudent b s' updatedRecord = Inr updatedStudent"
  shows "post_student_update b s body =
           (s', reply 200 [(''success'', JBool True), (''student'', JObj updatedStudent)])"
  using update_writes_patch [OF assms(1-4)] assms(5,6) by simp

lemma update_refused:
  assumes "get_prop body ''email'' = JStr em" and "em \<noteq> []"
    and "get_prop body ''updates'' = JObj kvs"
    and "select_students b s (email_formula (trim (toLowerCase em))) = Inr (studentRecord # others)"
    and "update_student b s (rec_id studentRecord) (fieldsToUpdate (JObj kvs)) = Inl err"
  shows "post_student_update b s body = (s, failed ''Failed to update student profile'' err)"
  using update_writes_patch [OF assms(1-4)] assms(5) by simp

text \<open>
  C7. For an update request whose \<open>updates\<close> is the object \<open>kvs\<close>: no field outside
  \<open>allowedFields\<close> is a key of the patch, every entry of the patch is an entry of \<open>kvs\<close>,
  and every allowed field that \<open>kvs\<close> gives a value other than \<open>null\<close> and \<open>undefined\<close>
  is in the patch with that value. The handler's result is the same as for any request
  with the same email whose updates agree with \<open>kvs\<close> on the allowed fields, in
  particular the request with the other fields left out. When the request carries an
  email that selects a student, that patch and the student's id are what
  \<open>base('Students').update\<close> is called with: if the base accepts and the updated record
  hydrates, the new state of the base is the one the update gave and the response is 200
  with the hydrated updated record, which shows under each allowed field the cell the
  updated record has there; if the base refuses, the state is unchanged and the response
  is the 500 of the refusal.
\<close>

theorem update_only_allowed:
  assumes "get_prop body ''updates'' = JObj kvs" and "get_prop body' ''updates'' = JObj kvs'"
    and "get_prop body' ''email'' = get_prop body ''email''"
    and "\<forall>f \<in> set allowedFields. map_of kvs' f = map_of kvs f"
  shows "(\<forall>k. k \<notin> set allowedFields \<longrightarrow> map_of (fieldsToUpdate (JObj kvs)) k = None)
       \<and> (\<forall>k v. map_of (fieldsToUpdate (JObj kvs)) k = Some v \<longrightarrow> map_of kvs k = Some v)
       \<and> post_student_update b s body' = post_student_update b s body
       \<and> (\<forall>k v. k \<in> set allowedFields \<longrightarrow> map_of kvs k = Some v \<longrightarrow> v \<noteq> JNull \<longrightarrow> v \<noteq> JUndefined \<longrightarrow>
              map_of (fieldsToUpdate (JObj kvs)) k = Some v)
       \<and> (get_prop body ''email'' = JStr em \<longrightarrow> em \<noteq> [] \<longrightarrow>
          select_students b s (email_formula (trim (toLowerCase em))) = Inr (studentRecord # others) \<longrightarrow>
            (\<forall>s' updatedRecord updatedStudent.
               update_student b s (rec_id studentRecord) (fieldsToUpdate (JObj kvs)) = Inr (s', updatedRecord) \<longrightarrow>
               hydrateStudent b s' updatedRecord = Inr updatedStudent \<longrightarrow>
                 post_student_update b s body =
                   (s', reply 200 [(''success'', JBool True), (''student'', JObj updatedStudent)])
                 \<and> (distinct (map fst (rec_fields updatedRecord)) \<longrightarrow>
                      (\<forall>k \<in> set allowedFields.
                         map_of updatedStudent k = map_option js_of_cell (map_of (rec_fields updatedRecord) k))))
          \<and> (\<forall>err. update_student b s (rec_id studentRecord) (fieldsToUpdate (JObj kvs)) = Inl err \<longrightarrow>
                 post_student_update b s body = (s, failed ''Failed to update student profile'' err)))"
proof (intro conjI allI impI ballI)
  fix k assume "k \<notin> set allowedFields"
  then show "map_of (fieldsToUpdate (JObj kvs)) k = None" by (simp add: map_of_fieldsToUpdate)
next
  fix k v assume "map_of (fieldsToUpdate (JObj kvs)) k = Some v"
  then show "map_of kvs k = Some v"
    by (auto simp add: map_of_fieldsToUpdate get_prop_def split: if_splits option.splits)
next
  from assms(3,1,2) fieldsToUpdate_agree [OF assms(4)]
  show "post_student_update b s body' = post_student_update b s body"
    by (rule update_by_patch)
next
  fix k v assume "k \<in> set allowedFields" "map_of kvs k = Some v" "v \<noteq> JNull" "v \<noteq> JUndefined"
  then show "map_of (fieldsToUpdate (JObj kvs)) k = Some v"
    by (simp add: map_of_fieldsToUpdate get_prop_def)
next
  fix s' updatedRecord updatedStudent
  assume "get_prop body ''email'' = JStr em" "em \<noteq> []"
    "select_students b s (email_formula (trim (toLowerCase em))) = Inr (studentRecord # others)"
    "update_student b s (rec_id studentRecord) (fieldsToUpdate (JObj kvs)) = Inr (s', updatedRecord)"
    "hydrateStudent b s' updatedRecord = Inr updatedStudent"
  then show "post_student_update b s body =
      (s', reply 200 [(''success'', JBool True), (''student'', JObj updatedStudent)])"
    using assms(1) by (rule_tac update_written)
next
  fix s' updatedRecord updatedStudent k
  assume "hydrateStudent b s' updatedRecord = Inr updatedStudent"
    "distinct (map fst (rec_fields updatedRecord))" "k \<in> set allowedFields"
  then show "map_of updatedStudent k = map_option js_of_cell (map_of (rec_fields updatedRecord) k)"
    by (rule hydrated_allowed_field)
next
  fix err
  assume "get_prop body ''email'' = JStr em" "em \<noteq> []"
    "select_students b s (email_formula (trim (toLowerCase em))) = Inr (studentRecord # others)"
    "update_student b s (rec_id studentRecord) (fieldsToUpdate (JObj kvs)) = Inl err"
  then show "post_student_update b s body = (s, failed ''Failed to update student profile'' err)"
    using assms(1) by (rule_tac update_refused)
qed

text \<open>
  C10. For an update request whose \<open>updates\<close> gives the field \<open>f\<close> the value \<open>null\<close> or
  \<open>undefined\<close>: \<open>f\<close> is not a key of the patch, and the handler's result is the same as
  for the request that does not mention \<open>f\<close> at all. An allowed field given the empty
  string is in the patch with the empty string. When the request carries an email that
  selects a student, that patch (without \<open>f\<close>, with the empty strings) and the student's
  id are what \<open>base('Students').update\<close> is called with: the handler's new state and
  response are those that the base's answer to exactly this call, and the hydration of
  the record it returns, determine.
\<close>

theorem update_drops_null:
  assumes "get_prop body ''updates'' = JObj kvs"
    and "map_of kvs f = Some JNull \<or> map_of kvs f = Some JUndefined"
    and "get_prop body' ''updates'' = JObj (filter (\<lambda>(k, v). k \<noteq> f) kvs)"
    and "get_prop body' ''email'' = get_prop body ''email''"
  shows "map_of (fieldsToUpdate (JObj kvs)) f = None
       \<and> post_student_update b s body = post_student_update b s body'
       \<and> (g \<in> set allowedFields \<longrightarrow> map_of kvs g = Some (JStr []) \<longrightarrow>
            map_of (fieldsToUpdate (JObj kvs)) g = Some (JStr []))
       \<and> (get_prop body ''email'' = JStr em \<longrightarrow> em \<noteq> [] \<longrightarrow>
          select_students b s (email_formula (trim (toLowerCase em))) = Inr (studentRecord # others) \<longrightarrow>
            (\<exists>patch. map_of patch f = None
               \<and> (\<forall>h \<in> set allowedFields. map_of kvs h = Some (JStr []) \<longrightarrow> map_of patch h = Some (JStr []))
               \<and> post_student_update b s body =
                   (case update_student b s (rec_id studentRecord) patch of
                      Inl err \<Rightarrow> (s, failed ''Failed to update student profile'' err)
                    | Inr (s', updatedRecord) \<Rightarrow>
                        (case hydrateStudent b s' updatedRecord of
                           Inl err \<Rightarrow> (s', failed ''Failed to update student profile'' err)
                         | Inr updatedStudent \<Rightarrow>
                             (s', reply 200 [(''success'', JBool True),
                                             (''student'', JObj updatedStudent)])))
               \<and> patch = fieldsToUpdate (JObj kvs)))"
proof (intro conjI impI)
  from assms(2) show none: "map_of (fieldsToUpdate (JObj kvs)) f = None"
    by (auto simp add: map_of_fieldsToUpdate get_prop_def)
  assume e: "get_prop body ''email'' = JStr em" "em \<noteq> []"
    "select_students b s (email_formula (trim (toLowerCase em))) = Inr (studentRecord # others)"
  have empties: "\<forall>h \<in> set allowedFields. map_of kvs h = Some (JStr []) \<longrightarrow>
      map_of (fieldsToUpdate (JObj kvs)) h = Some (JStr [])"
    by (simp add: map_of_fieldsToUpdate get_prop_def)
  from update_writes_patch [OF e(1,2) assms(1) e(3)] none empties
  show "\<exists>patch. map_of patch f = None
               \<and> (\<forall>h \<in> set allowedFields. map_of kvs h = Some (JStr []) \<longrightarrow> map_of patch h = Some (JStr []))
               \<and> post_student_update b s body =
                   (case update_student b s (rec_id studentRecord) patch of
                      Inl err \<Rightarrow> (s, failed ''Failed to update student profile'' err)
                    | Inr (s', updatedRecord) \<Rightarrow>
                        (case hydrateStudent b s' updatedRecord of
                           Inl err \<Rightarrow> (s', failed ''Failed to update student profile'' err)
                         | Inr updatedStudent \<Rightarrow>
                             (s', reply 200 [(''success'', JBool True),
                                             (''student'', JObj updatedStudent)])))
               \<and> patch = fieldsToUpdate (JObj kvs)"
    by blast
next
  let ?kvs' = "filter (\<lambda>(k, v). k \<noteq> f) kvs"
  have other: "map_of ?kvs' h = map_of kvs h" if "h \<noteq> f" for h
    using that by (induction kvs) auto
  have self: "map_of ?kvs' f = None"
    by (induction kvs) auto
  have keep_eq: "kept (JObj ?kvs') h = kept (JObj kvs) h" for h
  proof (cases "h = f")
    case True
    with self assms(2) show ?thesis by (auto simp add: get_prop_def)
  next
    case False
    with other [of h] show ?thesis by (simp add: get_prop_def)
  qed
  have val_eq: "field_of (JObj ?kvs') h = field_of (JObj kvs) h" if "kept (JObj kvs) h" for h
  proof (cases "h = f")
    case True
    with that assms(2) show ?thesis by (auto simp add: get_prop_def)
  next
    case False
    with other [of h] show ?thesis by (simp add: get_prop_def)
  qed
  have "fieldsToUpdate (JObj ?kvs') = fieldsToUpdate (JObj kvs)"
  proof (rule fieldsToUpdate_cong)
    fix h show "kept (JObj ?kvs') h = kept (JObj kvs) h" by (rule keep_eq)
  next
    fix h assume "kept (JObj kvs) h"
    then show "field_of (JObj ?kvs') h = field_of (JObj kvs) h" by (rule val_eq)
  qed
  from update_by_patch [OF assms(4,1,3) this, of b s]
  show "post_student_update b s body = post_student_update b s body'" by (rule sym)
next
  assume "g \<in> set allowedFields" and "map_of kvs g = Some (JStr [])"
  then show "map_of (fieldsToUpdate (JObj kvs)) g = Some (JStr [])"
    by (simp add: map_of_fieldsToUpdate get_prop_def)
qed

lemma Name_not_allowed: "''Name'' \<notin> set allowedFields \<and> ''Lead Mentor'' \<notin> set allowedFields"
  by (simp add: allowedFields_def)

lemma patch_mixed: "fieldsToUpdate (JObj mixed_updates) = [(''GPA'', JStr ''3.9'')]"
  by (simp add: fieldsToUpdate_eq allowedFields_def mixed_updates_def get_prop_def)

lemma patch_null: "fieldsToUpdate (JObj null_updates) = [(''Degree / Major'', JStr [])]"
  by (simp add: fieldsToUpdate_eq allowedFields_def null_updates_def get_prop_def)

lemma patch_refused: "fieldsToUpdate (JObj [(''GPA'', JArr [])]) = [(''GPA'', JArr [])]"
  by (simp add: fieldsToUpdate_eq allowedFields_def get_prop_def)

lemma select_jane_raw:
  "select_students memory_base campus (email_formula (trim (toLowerCase ''Jane@Example.com ''))) = Inr [jane]"
  by (simp add: normalize_jane select_jane)

lemma update_jane_gpa:
  "update_student memory_base campus (rec_id jane) [(''GPA'', JStr ''3.9'')] = Inr (campus_updated, jane_updated)"
  by (simp add: memory_base_def memory_update_def campus_def campus_updated_def jane_updated_def jane_def Let_def)

lemma update_jane_clear:
  "update_student memory_base campus (rec_id jane) [(''Degree / Major'', JStr [])] = Inr (campus, jane)"
  by (simp add: memory_base_def memory_update_def campus_def jane_def AList.delete_eq Let_def)

lemma update_jane_refused:
  "update_student memory_base campus (rec_id jane) [(''GPA'', JArr [])]
     = Inl (Rejected ''Field cannot accept the provided value'')"
  by (simp add: memory_base_def memory_update_def campus_def jane_def Let_def)

lemma hydrate_jane_updated: "\<exists>st. hydrateStudent memory_base campus_updated jane_updated = Inr st"
  by (simp add: hydrateStudent_typed jane_updated_def jane_def)

lemma hydrate_jane: "\<exists>st. hydrateStudent memory_base campus jane = Inr st"
  by (simp add: hydrateStudent_typed jane_def)

theorem update_only_allowed_witness:
  "get_prop [(''email'', JStr ''Jane@Example.com ''), (''updates'', JObj mixed_updates)] ''updates''
     = JObj mixed_updates
   \<and> map_of mixed_updates ''Name'' = Some (JStr ''Mallory'')
   \<and> ''Name'' \<notin> set allowedFields
   \<and> map_of (fieldsToUpdate (JObj mixed_updates)) ''Name'' = None
   \<and> map_of (fieldsToUpdate (JObj mixed_updates)) ''Lead Mentor'' = None
   \<and> post_student_update memory_base campus
         [(''email'', JStr ''Jane@Example.com ''), (''updates'', JObj [(''GPA'', JStr ''3.9'')])]
       = post_student_update memory_base campus
         [(''email'', JStr ''Jane@Example.com ''), (''updates'', JObj mixed_updates)]
   \<and> ''GPA'' \<in> set allowedFields
   \<and> map_of mixed_updates ''GPA'' = Some (JStr ''3.9'')
   \<and> map_of (fieldsToUpdate (JObj mixed_updates)) ''GPA'' = Some (JStr ''3.9'')
   \<and> select_students memory_base campus (email_formula (trim (toLowerCase ''Jane@Example.com ''))) = Inr [jane]
   \<and> update_student memory_base campus (rec_id jane) (fieldsToUpdate (JObj mixed_updates))
       = Inr (campus_updated, jane_updated)
   \<and> distinct (map fst (rec_fields jane_updated))
   \<and> (\<exists>st. hydrateStudent memory_base campus_updated jane_updated = Inr st
         \<and> post_student_update memory_base campus
              [(''email'', JStr ''Jane@Example.com ''), (''updates'', JObj mixed_updates)]
             = (campus_updated, reply 200 [(''success'', JBool True), (''student'', JObj st)])
         \<and> map_of st ''GPA'' = Some (JStr ''3.9''))
   \<and> update_student memory_base campus (rec_id jane) (fieldsToUpdate (JObj [(''GPA'', JArr [])]))
       = Inl (Rejected ''Field cannot accept the provided value'')
   \<and> post_student_update memory_base campus
         [(''email'', JStr ''Jane@Example.com ''), (''updates'', JObj [(''GPA'', JArr [])])]
       = (campus, failed ''Failed to update student profile'' (Rejected ''Field cannot accept the provided value''))"
proof -
  let ?body = "[(''email'', JStr ''Jane@Example.com ''), (''updates'', JObj mixed_updates)]"
  let ?body' = "[(''email'', JStr ''Jane@Example.com ''), (''updates'', JObj [(''GPA'', JStr ''3.9'')])]"
  let ?bad = "[(''email'', JStr ''Jane@Example.com ''), (''updates'', JObj [(''GPA'', JArr [])])]"
  have u: "get_prop ?body ''updates'' = JObj mixed_updates" by (simp add: get_prop_def)
  have u': "get_prop ?body' ''updates'' = JObj [(''GPA'', JStr ''3.9'')]" by (simp add: get_prop_def)
  have e: "get_prop ?body' ''email'' = get_prop ?body ''email''" by (simp add: get_prop_def)
  have em: "get_prop ?body ''email'' = JStr ''Jane@Example.com ''" by (simp add: get_prop_def)
  have agree: "\<forall>f \<in> set allowedFields. map_of [(''GPA'', JStr ''3.9'')] f = map_of mixed_updates f"
    by (simp add: allowedFields_def mixed_updates_def)
  have m: "map_of mixed_updates ''Name'' = Some (JStr ''Mallory'')" by (simp add: mixed_updates_def)
  have g: "map_of mixed_updates ''GPA'' = Some (JStr ''3.9'')" by (simp add: mixed_updates_def)
  have a: "''GPA'' \<in> set allowedFields" by (simp add: allowedFields_def)
  have upd: "update_student memory_base campus (rec_id jane) (fieldsToUpdate (JObj mixed_updates))
       = Inr (campus_updated, jane_updated)" by (simp only: patch_mixed update_jane_gpa)
  have d: "distinct (map fst (rec_fields jane_updated))" by (simp add: jane_updated_def jane_def)
  have cell: "map_of (rec_fields jane_updated) ''GPA'' = Some (CText ''3.9'')"
    by (simp add: jane_updated_def jane_def)
  obtain st where st: "hydrateStudent memory_base campus_updated jane_updated = Inr st"
    using hydrate_jane_updated by blast
  have ne: "''Jane@Example.com '' \<noteq> []" by simp
  note main = update_only_allowed [OF u u' e agree, of memory_base campus "''Jane@Example.com ''" jane "[]"]
  note upper = main [THEN conjunct1, rule_format]
  note same = main [THEN conjunct2, THEN conjunct2, THEN conjunct1]
  note lower = main [THEN conjunct2, THEN conjunct2, THEN conjunct2, THEN conjunct1, rule_format]
  note tie = main [THEN conjunct2, THEN conjunct2, THEN conjunct2, THEN conjunct2, rule_format,
      OF em ne select_jane_raw]
  note written = tie [THEN conjunct1, rule_format, OF upd st]
  have c1: "map_of (fieldsToUpdate (JObj mixed_updates)) ''Name'' = None"
    by (rule upper [OF Name_not_allowed [THEN conjunct1]])
  have c2: "map_of (fieldsToUpdate (JObj mixed_updates)) ''Lead Mentor'' = None"
    by (rule upper [OF Name_not_allowed [THEN conjunct2]])
  have c3: "map_of (fieldsToUpdate (JObj mixed_updates)) ''GPA'' = Some (JStr ''3.9'')"
    by (rule lower [OF a g]) simp_all
  have run: "post_student_update memory_base campus ?body
      = (campus_updated, reply 200 [(''success'', JBool True), (''student'', JObj st)])"
    by (rule written [THEN conjunct1])
  have "map_of st ''GPA'' = map_option js_of_cell (map_of (rec_fields jane_updated) ''GPA'')"
    by (rule written [THEN conjunct2, rule_format, OF d a])
  with cell have shown: "map_of st ''GPA'' = Some (JStr ''3.9'')" by simp
  have ub: "get_prop ?bad ''updates'' = JObj [(''GPA'', JArr [])]" by (simp add: get_prop_def)
  have emb: "get_prop ?bad ''email'' = JStr ''Jane@Example.com ''" by (simp add: get_prop_def)
  have refused: "update_student memory_base campus (rec_id jane) (fieldsToUpdate (JObj [(''GPA'', JArr [])]))
       = Inl (Rejected ''Field cannot accept the provided value'')"
    by (simp only: patch_refused update_jane_refused)
  have trivial_agree: "\<forall>f \<in> set allowedFields. map_of [(''GPA'', JArr [])] f = map_of [(''GPA'', JArr [])] f"
    by simp
  note main_bad = update_only_allowed [OF ub ub refl trivial_agree,
      of memory_base campus "''Jane@Example.com ''" jane "[]"]
  note tie_bad = main_bad [THEN conjunct2, THEN conjunct2, THEN conjunct2, THEN conjunct2, rule_format,
      OF emb ne select_jane_raw]
  have bad: "post_student_update memory_base campus ?bad
       = (campus, failed ''Failed to update student profile'' (Rejected ''Field cannot accept the provided value''))"
    by (rule tie_bad [THEN conjunct2, rule_format, OF refused])
  have ex: "\<exists>st. hydrateStudent memory_base campus_updated jane_updated = Inr st
         \<and> post_student_update memory_base campus ?body
             = (campus_updated, reply 200 [(''success'', JBool True), (''student'', JObj st)])
         \<and> map_of st ''GPA'' = Some (JStr ''3.9'')"
    using st run shown by (intro exI [of _ st] conjI)
  show ?thesis
    using u m Name_not_allowed [THEN conjunct1] c1 c2 same a g c3 select_jane_raw upd d ex refused bad
    by (intro conjI)
qed

theorem update_drops_null_witness:
  "get_prop [(''email'', JStr ''Jane@Example.com ''), (''updates'', JObj null_updates)] ''updates''
     = JObj null_updates
   \<and> map_of null_updates ''GPA'' = Some JNull
   \<and> map_of (fieldsToUpdate (JObj null_updates)) ''GPA'' = None
   \<and> post_student_update memory_base campus
         [(''email'', JStr ''Jane@Example.com ''), (''updates'', JObj null_updates)]
       = post_student_update memory_base campus
         [(''email'', JStr ''Jane@Example.com ''), (''updates'', JObj [(''Degree / Major'', JStr [])])]
   \<and> ''Degree / Major'' \<in> set allowedFields
   \<and> map_of null_updates ''Degree / Major'' = Some (JStr [])
   \<and> map_of (fieldsToUpdate (JObj null_updates)) ''Degree / Major'' = Some (JStr [])
   \<and> select_students memory_base campus (email_formula (trim (toLowerCase ''Jane@Example.com ''))) = Inr [jane]
   \<and> update_student memory_base campus (rec_id jane) [(''Degree / Major'', JStr [])] = Inr (campus, jane)
   \<and> (\<exists>st. hydrateStudent memory_base campus jane = Inr st
         \<and> post_student_update memory_base campus
              [(''email'', JStr ''Jane@Example.com ''), (''updates'', JObj null_updates)]
             = (campus, reply 200 [(''success'', JBool True), (''student'', JObj st)])
         \<and> map_of st ''GPA'' = Some (JStr ''3.7''))"
proof -
  let ?body = "[(''email'', JStr ''Jane@Example.com ''), (''updates'', JObj null_updates)]"
  let ?body' = "[(''email'', JStr ''Jane@Example.com ''), (''updates'', JObj [(''Degree / Major'', JStr [])])]"
  have u: "get_prop ?body ''updates'' = JObj null_updates" by (simp add: get_prop_def)
  have n: "map_of null_updates ''GPA'' = Some JNull \<or> map_of null_updates ''GPA'' = Some JUndefined"
    by (simp add: null_updates_def)
  have u': "get_prop ?body' ''updates'' = JObj (filter (\<lambda>(k, v). k \<noteq> ''GPA'') null_updates)"
    by (simp add: get_prop_def null_updates_def)
  have e: "get_prop ?body' ''email'' = get_prop ?body ''email''" by (simp add: get_prop_def)
  have em: "get_prop ?body ''email'' = JStr ''Jane@Example.com ''" by (simp add: get_prop_def)
  have a: "''Degree / Major'' \<in> set allowedFields" by (simp add: allowedFields_def)
  have ga: "''GPA'' \<in> set allowedFields" by (simp add: allowedFields_def)
  have d: "map_of null_updates ''Degree / Major'' = Some (JStr [])" by (simp add: null_updates_def)
  have g: "map_of null_updates ''GPA'' = Some JNull" by (simp add: null_updates_def)
  obtain st where st: "hydrateStudent memory_base campus jane = Inr st"
    using hydrate_jane by blast
  have dist: "distinct (map fst (rec_fields jane))" by (simp add: jane_def)
  from hydrated_allowed_field [OF st dist ga]
  have kept_gpa: "map_of st ''GPA'' = Some (JStr ''3.7'')" by (simp add: jane_def)
  have ne: "''Jane@Example.com '' \<noteq> []" by simp
  note main = update_drops_null [OF u n u' e, of memory_base campus "''Degree / Major''"
      "''Jane@Example.com ''" jane "[]"]
  note c1 = main [THEN conjunct1]
  note c2 = main [THEN conjunct2, THEN conjunct1]
  note c3 = main [THEN conjunct2, THEN conjunct2, THEN conjunct1, rule_format, OF a d]
  note tie = main [THEN conjunct2, THEN conjunct2, THEN conjunct2, rule_format, OF em ne select_jane_raw]
  from tie obtain patch where p: "patch = fieldsToUpdate (JObj null_updates)"
    and call: "post_student_update memory_base campus ?body =
      (case update_student memory_base campus (rec_id jane) patch of
         Inl err \<Rightarrow> (campus, failed ''Failed to update student profile'' err)
       | Inr (s', updatedRecord) \<Rightarrow>
           (case hydrateStudent memory_base s' updatedRecord of
              Inl err \<Rightarrow> (s', failed ''Failed to update student profile'' err)
            | Inr updatedStudent \<Rightarrow>
                (s', reply 200 [(''success'', JBool True), (''student'', JObj updatedStudent)])))"
    by (elim exE conjE)
  have upd: "update_student memory_base campus (rec_id jane) patch = Inr (campus, jane)"
    by (simp only: p patch_null update_jane_clear)
  have run: "post_student_update memory_base campus ?body
       = (campus, reply 200 [(''success'', JBool True), (''student'', JObj st)])"
    by (simp add: call upd st)
  have ex: "\<exists>st. hydrateStudent memory_base campus jane = Inr st
         \<and> post_student_update memory_base campus ?body
             = (campus, reply 200 [(''success'', JBool True), (''student'', JObj st)])
         \<and> map_of st ''GPA'' = Some (JStr ''3.7'')"
    using st run kept_gpa by (intro exI [of _ st] conjI)
  show ?thesis
    using u g c1 c2 a d c3 select_jane_raw update_jane_clear ex
    by (intro conjI)
qed

subsection \<open>Email normalisation\<close>

lemma select_raw:
  "select_students memory_base campus (email_formula ''Jane@Example.com '') = Inr []"
  by (simp add: memory_base_def memory_select_def campus_def jane_def email_matches_def email_formula_def)

lemma fetch_jane: "status (get_student memory_base campus ''jane@example.com'') = 200"
proof -
  have "\<forall>c cs. map_of (rec_fields jane) ''Student-Mentor Meetings'' \<noteq> Some (CText (c # cs))"
    by (simp add: jane_def)
  from hydrateStudent_typed [OF this, of memory_base campus] show ?thesis
    by (simp add: get_student_def getStudentByEmail_def select_jane)
qed

lemma fetch_raw:
  "get_student memory_base campus ''Jane@Example.com '' = reply 404 [(''error'', JStr ''Student not found'')]"
  by (simp add: get_student_def getStudentByEmail_def select_raw)

text \<open>
  C3. The student fetch \<open>GET /student/:email\<close> puts the email into the filter formula
  as it is given, while the magic-link, dev-login and update handlers lower-case and trim
  it first. On the base that holds Jane under \<open>jane@example.com\<close>, the fetch for
  \<open>Jane@Example.com \<close> (capitals, trailing space) answers 404 and the fetch for
  \<open>jane@example.com\<close> answers 200, whereas the magic-link and dev-login requests for
  \<open>Jane@Example.com \<close> find her.
\<close>

theorem student_fetch_not_normalized:
  "get_student memory_base campus ''Jane@Example.com '' = reply 404 [(''error'', JStr ''Student not found'')]
   \<and> status (get_student memory_base campus ''jane@example.com'') = 200
   \<and> status (snd (post_auth_magic_link memory_base bare_env campus Map.empty
                     [(''email'', JStr ''Jane@Example.com '')] 1700000000000 ''tok-1'')) = 200
   \<and> status (post_auth_dev_login memory_base dev_env campus
                [(''email'', JStr ''Jane@Example.com '')] 1000 ''sess-1'') = 200"
  by (simp add: fetch_raw fetch_jane issue_jane dev_login_jane status_reply status_session_reply)

end
